theory Spec2Isabelle
  imports Main
begin

section \<open>JavaScript values\<close>

text \<open>
  Object identity is a reference. A JavaScript value is a primitive or a reference to a
  function or to an object; \<open>typeof\<close> is the operator of the language (\<open>typeof null\<close> is
  \<open>'object'\<close>).
\<close>

type_synonym ref = nat

datatype jsval =
    JUndefined
  | JNull
  | JBoolean bool
  | JNumber int
  | JString string
  | JSymbol nat
  | JFunction ref
  | JObject ref

definition typeof :: "jsval \<Rightarrow> string" where
  "typeof v =
     (case v of
        JUndefined \<Rightarrow> ''undefined''
      | JNull \<Rightarrow> ''object''
      | JBoolean _ \<Rightarrow> ''boolean''
      | JNumber _ \<Rightarrow> ''number''
      | JString _ \<Rightarrow> ''string''
      | JSymbol _ \<Rightarrow> ''symbol''
      | JFunction _ \<Rightarrow> ''function''
      | JObject _ \<Rightarrow> ''object'')"

datatype PropertyKey = KeyString string | KeySymbol nat

type_synonym PropertyKeys = "PropertyKey list"

text \<open>A property descriptor map: own keys in order, each with its descriptor object.\<close>

type_synonym PropertyDescriptorMap = "(PropertyKey \<times> jsval) list"

datatype error = TypeError string | HierarchyRequestError

section \<open>The host: document tree, module state, and the DOM calls made\<close>

datatype NodeKind = DocumentNode | ElementNode string | OtherNode

datatype event =
    CreateElement ref string ref
  | SetStyle ref string string
  | SetAttribute ref string string
  | AppendChild ref ref
  | Remove ref
  | DocumentOpen ref
  | DocumentClose ref

text \<open>
  The state a call reads and writes: the node store of the host (kind, children in
  order, parent, attributes, inline style, the document that created a node, whether a
  document has a browsing context, whether \<^verbatim>\<open>createElement\<close> of a document gives elements of
  the HTML namespace (an HTML document, or one of type \<^verbatim>\<open>application/xhtml+xml\<close>), whether
  an element is an \<^verbatim>\<open>HTMLElement\<close>, the content window of an iframe and the document of a
  window), the allocator of fresh references, the two module-level variables of
  \<^verbatim>\<open>browser-realm.ts\<close> (\<^verbatim>\<open>defaultGlobalOwnKeys\<close>, \<^verbatim>\<open>null\<close> being \<open>None\<close>, and the weak map
  \<^verbatim>\<open>blueDocumentToBlueCreateHooksCallbackMap\<close>, an association list from document to
  connector, whose entries are never collected here), and the DOM calls made so far, in
  order.
\<close>

record world =
  nodeKind :: "ref \<Rightarrow> NodeKind option"
  childNodes :: "ref \<Rightarrow> ref list"
  parentNode :: "ref \<Rightarrow> ref option"
  attributes :: "ref \<Rightarrow> string \<Rightarrow> string option"
  style :: "ref \<Rightarrow> string \<Rightarrow> string option"
  ownerDocument :: "ref \<Rightarrow> ref option"
  hasBrowsingContext :: "ref \<Rightarrow> bool"
  createsHTMLElements :: "ref \<Rightarrow> bool"
  isHTMLElement :: "ref \<Rightarrow> bool"
  contentWindow :: "ref \<Rightarrow> ref option"
  windowDocument :: "ref \<Rightarrow> ref option"
  nextRef :: ref
  defaultGlobalOwnKeys :: "PropertyKeys option"
  blueDocumentToBlueCreateHooksCallbackMap :: "(ref \<times> ref) list"
  events :: "event list"

definition IFRAME_SANDBOX_ATTRIBUTE_VALUE :: string where
  "IFRAME_SANDBOX_ATTRIBUTE_VALUE = ''allow-same-origin allow-scripts''"

subsection \<open>The DOM operations the source calls\<close>

text \<open>\<^verbatim>\<open>Document.prototype.createElement\<close>: a fresh element with no parent, child,
  attribute or style, an \<^verbatim>\<open>HTMLElement\<close> when the document gives elements of the HTML
  namespace and a plain \<^verbatim>\<open>Element\<close> otherwise; an illegal invocation when the receiver is
  not a document.\<close>

definition DocumentProtoCreateElement :: "ref \<Rightarrow> string \<Rightarrow> world \<Rightarrow> (error + ref) \<times> world" where
  "DocumentProtoCreateElement doc tag s =
     (if nodeKind s doc \<noteq> Some DocumentNode then (Inl (TypeError ''Illegal invocation''), s)
      else
        let n = nextRef s in
        (Inr n,
         s\<lparr>nodeKind := (nodeKind s)(n := Some (ElementNode tag)),
           childNodes := (childNodes s)(n := []),
           parentNode := (parentNode s)(n := None),
           attributes := (attributes s)(n := (\<lambda>_. None)),
           style := (style s)(n := (\<lambda>_. None)),
           ownerDocument := (ownerDocument s)(n := Some doc),
           isHTMLElement := (isHTMLElement s)(n := createsHTMLElements s doc),
           contentWindow := (contentWindow s)(n := None),
           nextRef := n + 1,
           events := events s @ [CreateElement doc tag n]\<rparr>))"

definition isElement :: "world \<Rightarrow> ref \<Rightarrow> bool" where
  "isElement s n = (case nodeKind s n of Some (ElementNode _) \<Rightarrow> True | _ \<Rightarrow> False)"

text \<open>An element of the HTML namespace with one of the given local names.\<close>

definition hasTag :: "world \<Rightarrow> string list \<Rightarrow> ref \<Rightarrow> bool" where
  "hasTag s tags n =
     (isHTMLElement s n
      \<and> (case nodeKind s n of Some (ElementNode t) \<Rightarrow> t \<in> set tags | _ \<Rightarrow> False))"

text \<open>The \<^verbatim>\<open>body\<close> getter of a document: the first \<^verbatim>\<open>body\<close> or \<^verbatim>\<open>frameset\<close> child of the
  document element when that is an \<^verbatim>\<open>html\<close> element, \<^verbatim>\<open>null\<close> otherwise.\<close>

definition DocumentProtoBodyGetter :: "world \<Rightarrow> ref \<Rightarrow> ref option" where
  "DocumentProtoBodyGetter s doc =
     (case find (isElement s) (childNodes s doc) of
        None \<Rightarrow> None
      | Some root \<Rightarrow>
          if hasTag s [''html''] root
          then find (hasTag s [''body'', ''frameset'']) (childNodes s root)
          else None)"

definition NodeProtoLastChildGetter :: "world \<Rightarrow> ref \<Rightarrow> ref option" where
  "NodeProtoLastChildGetter s n =
     (case childNodes s n of [] \<Rightarrow> None | c # cs \<Rightarrow> Some (last (c # cs)))"

text \<open>The \<^verbatim>\<open>style\<close> getter of \<^verbatim>\<open>HTMLElement.prototype\<close>: the style declaration of the
  element (identified with the element), an illegal invocation on a receiver that is not
  an \<^verbatim>\<open>HTMLElement\<close>. Assigning a property of the declaration is \<open>setStyle\<close>.\<close>

definition HTMLElementProtoStyleGetter :: "world \<Rightarrow> ref \<Rightarrow> error + ref" where
  "HTMLElementProtoStyleGetter s n =
     (if isHTMLElement s n then Inr n else Inl (TypeError ''Illegal invocation''))"

definition setStyle :: "ref \<Rightarrow> string \<Rightarrow> string \<Rightarrow> world \<Rightarrow> world" where
  "setStyle n prop v s =
     s\<lparr>style := (style s)(n := (style s n)(prop := Some v)),
       events := events s @ [SetStyle n prop v]\<rparr>"

definition ElementProtoSetAttribute :: "ref \<Rightarrow> string \<Rightarrow> string \<Rightarrow> world \<Rightarrow> world" where
  "ElementProtoSetAttribute n name v s =
     s\<lparr>attributes := (attributes s)(n := (attributes s n)(name := Some v)),
       events := events s @ [SetAttribute n name v]\<rparr>"

text \<open>Taking a node out of its parent's children; a node with no parent stays as it is.\<close>

definition detach :: "ref \<Rightarrow> world \<Rightarrow> world" where
  "detach n s =
     (case parentNode s n of
        None \<Rightarrow> s
      | Some p \<Rightarrow>
          s\<lparr>childNodes := (childNodes s)(p := remove1 n (childNodes s p)),
            parentNode := (parentNode s)(n := None),
            contentWindow := (contentWindow s)(n := None)\<rparr>)"

text \<open>Whether a node accepts an element as a new child: an element does, a document
  does while it has no element child, any other node (doctype, comment, text) does not.\<close>

definition acceptsElementChild :: "world \<Rightarrow> ref \<Rightarrow> bool" where
  "acceptsElementChild s p =
     (case nodeKind s p of
        Some (ElementNode _) \<Rightarrow> True
      | Some DocumentNode \<Rightarrow> find (isElement s) (childNodes s p) = None
      | _ \<Rightarrow> False)"

text \<open>An iframe inserted under a document that has a browsing context gets a fresh
  content window with a fresh document of its own; the content of that document is not
  part of the node store.\<close>

definition createNestedBrowsingContext :: "ref \<Rightarrow> world \<Rightarrow> world" where
  "createNestedBrowsingContext n s =
     (case ownerDocument s n of
        None \<Rightarrow> s
      | Some doc \<Rightarrow>
          if hasTag s [''iframe''] n \<and> hasBrowsingContext s doc
          then
            let w = nextRef s; d = nextRef s + 1 in
            s\<lparr>contentWindow := (contentWindow s)(n := Some w),
              windowDocument := (windowDocument s)(w := Some d),
              nextRef := nextRef s + 2\<rparr>
          else s)"

text \<open>\<^verbatim>\<open>Node.prototype.appendChild\<close> applied to \<^verbatim>\<open>parent\<close> (\<open>None\<close> is \<^verbatim>\<open>null\<close>): an illegal
  invocation on \<^verbatim>\<open>null\<close>, a hierarchy error on a node that takes no element child;
  otherwise the child leaves its old parent and becomes the last child of the new one.\<close>

definition NodeProtoAppendChild :: "ref option \<Rightarrow> ref \<Rightarrow> world \<Rightarrow> (error + unit) \<times> world" where
  "NodeProtoAppendChild parent child s =
     (case parent of
        None \<Rightarrow> (Inl (TypeError ''Illegal invocation''), s)
      | Some p \<Rightarrow>
          if \<not> acceptsElementChild s p then (Inl HierarchyRequestError, s)
          else
            let s1 = detach child s;
                s2 = s1\<lparr>childNodes := (childNodes s1)(p := childNodes s1 p @ [child]),
                        parentNode := (parentNode s1)(child := Some p),
                        events := events s1 @ [AppendChild p child]\<rparr>
            in (Inr (), createNestedBrowsingContext child s2))"

definition ElementProtoRemove :: "ref \<Rightarrow> world \<Rightarrow> world" where
  "ElementProtoRemove n s = (detach n s)\<lparr>events := events s @ [Remove n]\<rparr>"

text \<open>\<^verbatim>\<open>open\<close> and \<^verbatim>\<open>close\<close> of a content document: recorded as calls (the content of the
  sandbox's document is not part of the node store).\<close>

definition DocumentProtoOpen :: "ref \<Rightarrow> world \<Rightarrow> world" where
  "DocumentProtoOpen d s = s\<lparr>events := events s @ [DocumentOpen d]\<rparr>"

definition DocumentProtoClose :: "ref \<Rightarrow> world \<Rightarrow> world" where
  "DocumentProtoClose d s = s\<lparr>events := events s @ [DocumentClose d]\<rparr>"

section \<open>Collaborators outside the source file\<close>

text \<open>
  The record \<^verbatim>\<open>getCachedGlobalObjectReferences\<close> resolves: the fields
  \<^verbatim>\<open>createIframeVirtualEnvironment\<close> reads from it.
\<close>

record CachedBlueReferencesRecord =
  document :: ref
  DocumentProto :: ref
  window :: ref
  EventTargetProto :: ref
  EventTargetProtoOwnKeys :: PropertyKeys

text \<open>
  What \<^verbatim>\<open>browser-realm.ts\<close> imports from \<^verbatim>\<open>./window\<close> and from the base package is a
  parameter of the model: the resolver (its result as a value, and the fields of the
  record object it returned), the two key filters, the two descriptor filters (each as a
  function from the map it is handed to the map it leaves, the first also taking the
  source it copies from), the poisoned key list, and whether \<^verbatim>\<open>globalThis\<close> is defined
  where the module runs. The functions are taken to return normally.
\<close>

record collaborators =
  getCachedGlobalObjectReferences :: "jsval \<Rightarrow> jsval"
  recordFields :: "ref \<Rightarrow> CachedBlueReferencesRecord"
  getFilteredGlobalOwnKeys :: "jsval \<Rightarrow> PropertyKeys"
  filterWindowKeys :: "PropertyKeys \<Rightarrow> PropertyKeys"
  assignFilteredGlobalDescriptorsFromPropertyDescriptorMap ::
    "PropertyDescriptorMap \<Rightarrow> PropertyDescriptorMap \<Rightarrow> PropertyDescriptorMap"
  removeWindowDescriptors :: "PropertyDescriptorMap \<Rightarrow> PropertyDescriptorMap"
  unforgeablePoisonedWindowKeys :: PropertyKeys
  globalThisDefined :: bool

text \<open>
  Modelled from the spec: \<^verbatim>\<open>createBlueConnector\<close> and \<^verbatim>\<open>createRedConnector\<close> (package
  near-membrane-base, not under src/). The spec has the cache "build a new host-side
  connector" on a miss and has sandbox-side connectors "created fresh per call": each
  call allocates a fresh reference.
\<close>

definition createBlueConnector :: "jsval \<Rightarrow> world \<Rightarrow> ref \<times> world" where
  "createBlueConnector globalObject s = (nextRef s, s\<lparr>nextRef := nextRef s + 1\<rparr>)"

definition createRedConnector :: "ref \<Rightarrow> world \<Rightarrow> ref \<times> world" where
  "createRedConnector redWindow s = (nextRef s, s\<lparr>nextRef := nextRef s + 1\<rparr>)"

text \<open>
  The \<^verbatim>\<open>VirtualEnvironment\<close> the call returns: the constructor's arguments and, in order,
  the configuration calls made on it.
\<close>

datatype env_call =
    LinkIntrinsics jsval
  | Link "string list"
  | RemapProto ref ref
  | LazyRemapProperties ref PropertyKeys "PropertyKeys option"
  | RemapProperties ref PropertyDescriptorMap

record VirtualEnvironment =
  blueConnector :: ref
  redConnector :: ref
  envDistortionCallback :: jsval
  envInstrumentation :: jsval
  calls :: "env_call list"

section \<open>browser-realm.ts\<close>

record BrowserEnvironmentOptions =
  distortionCallback :: jsval
  endowments :: "PropertyDescriptorMap option"
  globalObjectShape :: jsval
  instrumentation :: jsval
  keepAlive :: "bool option"

text \<open>\<^verbatim>\<open>ObjectAssign({ __proto__: null }, options)\<close> and the destructuring: an absent
  options object has every field undefined, and \<^verbatim>\<open>keepAlive\<close> defaults to \<^verbatim>\<open>false\<close>.\<close>

definition noOptions :: BrowserEnvironmentOptions where
  "noOptions =
     \<lparr>distortionCallback = JUndefined, endowments = None, globalObjectShape = JUndefined,
      instrumentation = JUndefined, keepAlive = None\<rparr>"

definition destructure :: "BrowserEnvironmentOptions option \<Rightarrow> BrowserEnvironmentOptions" where
  "destructure options = (case options of None \<Rightarrow> noOptions | Some opts \<Rightarrow> opts)"

definition keepAliveOf :: "BrowserEnvironmentOptions \<Rightarrow> bool" where
  "keepAliveOf opts = (case keepAlive opts of None \<Rightarrow> False | Some b \<Rightarrow> b)"

text \<open>Lines 76 to 78: the node the iframe is appended to, \<open>None\<close> being \<^verbatim>\<open>null\<close>.\<close>

definition iframeParent :: "world \<Rightarrow> ref \<Rightarrow> ref option" where
  "iframeParent s doc =
     (case DocumentProtoBodyGetter s doc of
        Some b \<Rightarrow> Some b
      | None \<Rightarrow> NodeProtoLastChildGetter s doc)"

text \<open>Lines 72 to 84.\<close>

definition createDetachableIframe :: "ref \<Rightarrow> world \<Rightarrow> (error + ref) \<times> world" where
  "createDetachableIframe doc s =
     (case DocumentProtoCreateElement doc ''iframe'' s of
        (Inl e, s1) \<Rightarrow> (Inl e, s1)
      | (Inr iframe, s1) \<Rightarrow>
          let parent = iframeParent s1 doc in
          (case HTMLElementProtoStyleGetter s1 iframe of
             Inl e \<Rightarrow> (Inl e, s1)
           | Inr declaration \<Rightarrow>
               let s2 = setStyle declaration ''display'' ''none'' s1;
                   s3 = ElementProtoSetAttribute iframe ''sandbox''
                          IFRAME_SANDBOX_ATTRIBUTE_VALUE s2
               in (case NodeProtoAppendChild parent iframe s3 of
                     (Inl e, s4) \<Rightarrow> (Inl e, s4)
                   | (Inr _, s4) \<Rightarrow> (Inr iframe, s4))))"

text \<open>The same statements, keeping the state each one leaves: after \<^verbatim>\<open>createElement\<close>,
  after the style assignment, after \<^verbatim>\<open>setAttribute\<close>, and after \<^verbatim>\<open>appendChild\<close>; only the
  first when \<^verbatim>\<open>createElement\<close> or the style getter throws.\<close>

definition createDetachableIframeStates :: "ref \<Rightarrow> world \<Rightarrow> world list" where
  "createDetachableIframeStates doc s =
     (case DocumentProtoCreateElement doc ''iframe'' s of
        (Inl e, s1) \<Rightarrow> [s1]
      | (Inr iframe, s1) \<Rightarrow>
          let parent = iframeParent s1 doc in
          (case HTMLElementProtoStyleGetter s1 iframe of
             Inl e \<Rightarrow> [s1]
           | Inr declaration \<Rightarrow>
               let s2 = setStyle declaration ''display'' ''none'' s1;
                   s3 = ElementProtoSetAttribute iframe ''sandbox''
                          IFRAME_SANDBOX_ATTRIBUTE_VALUE s2
               in [s1, s2, s3, snd (NodeProtoAppendChild parent iframe s3)]))"

text \<open>A node is attached when it has a parent or is some node's child.\<close>

definition attached :: "world \<Rightarrow> ref \<Rightarrow> bool" where
  "attached s n = (parentNode s n \<noteq> None \<or> (\<exists>p. n \<in> set (childNodes s p)))"

text \<open>The allocator's next reference is not in use in the node store.\<close>

definition nextRefUnused :: "world \<Rightarrow> bool" where
  "nextRefUnused s =
     (nodeKind s (nextRef s) = None \<and> parentNode s (nextRef s) = None
      \<and> (\<forall>p. nextRef s \<notin> set (childNodes s p)))"

text \<open>Two states with the same node store and the same DOM calls made.\<close>

definition sameNodes :: "world \<Rightarrow> world \<Rightarrow> bool" where
  "sameNodes s t =
     (nodeKind t = nodeKind s \<and> childNodes t = childNodes s \<and> parentNode t = parentNode s
      \<and> attributes t = attributes s \<and> style t = style s
      \<and> ownerDocument t = ownerDocument s \<and> hasBrowsingContext t = hasBrowsingContext s
      \<and> contentWindow t = contentWindow s \<and> windowDocument t = windowDocument s
      \<and> events t = events s)"

text \<open>The iframe carries the sandbox attribute and is hidden.\<close>

definition sandboxedHidden :: "world \<Rightarrow> ref \<Rightarrow> bool" where
  "sandboxedHidden s n =
     (attributes s n ''sandbox'' = Some IFRAME_SANDBOX_ATTRIBUTE_VALUE
      \<and> style s n ''display'' = Some ''none'')"

text \<open>Lines 111 to 115.\<close>

definition shouldUseDefaultGlobalOwnKeys :: "jsval \<Rightarrow> bool" where
  "shouldUseDefaultGlobalOwnKeys shape = (typeof shape \<noteq> ''object'' \<or> shape = JNull)"

definition windowValue :: "ref option \<Rightarrow> jsval" where
  "windowValue w = (case w of None \<Rightarrow> JNull | Some r \<Rightarrow> JObject r)"

definition initDefaultGlobalOwnKeys :: "collaborators \<Rightarrow> jsval \<Rightarrow> ref option \<Rightarrow> world \<Rightarrow> world" where
  "initDefaultGlobalOwnKeys c shape redWindow s =
     (if shouldUseDefaultGlobalOwnKeys shape \<and> defaultGlobalOwnKeys s = None
      then s\<lparr>defaultGlobalOwnKeys :=
               Some (filterWindowKeys c (getFilteredGlobalOwnKeys c (windowValue redWindow)))\<rparr>
      else s)"

text \<open>Lines 116 to 122. \<^verbatim>\<open>WeakMap.prototype.set\<close> replaces the entry of a key that has
  one and adds an entry otherwise.\<close>

fun weakMapSet :: "ref \<Rightarrow> ref \<Rightarrow> (ref \<times> ref) list \<Rightarrow> (ref \<times> ref) list" where
  "weakMapSet k v [] = [(k, v)]"
| "weakMapSet k v ((k', v') # m) = (if k = k' then (k, v) # m else (k', v') # weakMapSet k v m)"

definition getBlueConnector :: "jsval \<Rightarrow> ref \<Rightarrow> world \<Rightarrow> ref \<times> world" where
  "getBlueConnector globalObject doc s =
     (case map_of (blueDocumentToBlueCreateHooksCallbackMap s) doc of
        Some connector \<Rightarrow> (connector, s)
      | None \<Rightarrow>
          let (connector, s1) = createBlueConnector globalObject s in
          (connector,
           s1\<lparr>blueDocumentToBlueCreateHooksCallbackMap :=
                weakMapSet doc connector (blueDocumentToBlueCreateHooksCallbackMap s1)\<rparr>))"

text \<open>Lines 129 to 165: the calls made on the new environment, in order. \<open>ownKeys\<close> is
  the second argument of the first \<^verbatim>\<open>lazyRemapProperties\<close>: lines 148 to 150. The cast of
  line 149 reads a cell that lines 113 to 115 have filled, so the branch for an empty
  cell is never taken (lemma \<open>call_default_used\<close> below).\<close>

definition globalOwnKeys :: "collaborators \<Rightarrow> jsval \<Rightarrow> world \<Rightarrow> PropertyKeys" where
  "globalOwnKeys c shape s =
     (if shouldUseDefaultGlobalOwnKeys shape
      then (case defaultGlobalOwnKeys s of Some ks \<Rightarrow> ks | None \<Rightarrow> [])
      else filterWindowKeys c (getFilteredGlobalOwnKeys c shape))"

definition configure ::
  "collaborators \<Rightarrow> jsval \<Rightarrow> CachedBlueReferencesRecord \<Rightarrow> BrowserEnvironmentOptions \<Rightarrow> PropertyKeys \<Rightarrow> env_call list" where
  "configure c globalObject blueRefs opts ownKeys =
     [LinkIntrinsics globalObject,
      (if \<not> globalThisDefined c then Link [''window'', ''document''] else Link [''document'']),
      Link [''__proto__'', ''__proto__'', ''__proto__''],
      RemapProto (document blueRefs) (DocumentProto blueRefs),
      LazyRemapProperties (window blueRefs) ownKeys
        (if keepAliveOf opts then None else Some (unforgeablePoisonedWindowKeys c))]
     @ (case endowments opts of
          None \<Rightarrow> []
        | Some e \<Rightarrow>
            [RemapProperties (window blueRefs)
               (removeWindowDescriptors c
                  (assignFilteredGlobalDescriptorsFromPropertyDescriptorMap c [] e))])
     @ [LazyRemapProperties (EventTargetProto blueRefs) (EventTargetProtoOwnKeys blueRefs) None]"

text \<open>Lines 171 to 179.\<close>

definition lifecycle :: "bool \<Rightarrow> ref \<Rightarrow> ref \<Rightarrow> world \<Rightarrow> (error + unit) \<times> world" where
  "lifecycle keep iframe redWindow s =
     (if keep
      then (case windowDocument s redWindow of
              None \<Rightarrow> (Inl (TypeError ''Illegal invocation''), s)
            | Some redDocument \<Rightarrow>
                (Inr (), DocumentProtoClose redDocument (DocumentProtoOpen redDocument s)))
      else (Inr (), ElementProtoRemove iframe s))"

text \<open>Lines 106 to 180: what the call does once the iframe is in the host tree. The
  iframe is the one \<^verbatim>\<open>createDetachableIframe\<close> returned, an \<^verbatim>\<open>HTMLIFrameElement\<close>, so its
  \<^verbatim>\<open>contentWindow\<close> getter returns: the window, or \<^verbatim>\<open>null\<close> (\<open>None\<close>).\<close>

definition virtualize ::
  "collaborators \<Rightarrow> jsval \<Rightarrow> CachedBlueReferencesRecord \<Rightarrow> BrowserEnvironmentOptions \<Rightarrow> ref
     \<Rightarrow> world \<Rightarrow> (error + VirtualEnvironment) \<times> world" where
  "virtualize c globalObject blueRefs opts iframe s1 =
     (let redWindow = contentWindow s1 iframe;
          s2 = initDefaultGlobalOwnKeys c (globalObjectShape opts) redWindow s1;
          (connector, s3) = getBlueConnector globalObject (document blueRefs) s2
      in (case redWindow of
            None \<Rightarrow> (Inl (TypeError ''Cannot read properties of null''), s3)
          | Some w \<Rightarrow>
              let (red, s4) = createRedConnector w s3;
                  env = \<lparr>blueConnector = connector,
                         redConnector = red,
                         envDistortionCallback = distortionCallback opts,
                         envInstrumentation = instrumentation opts,
                         calls = configure c globalObject blueRefs opts
                                   (globalOwnKeys c (globalObjectShape opts) s4)\<rparr>
              in (case lifecycle (keepAliveOf opts) iframe w s4 of
                    (Inl e, s5) \<Rightarrow> (Inl e, s5)
                  | (Inr _, s5) \<Rightarrow> (Inr env, s5))))"

text \<open>Lines 86 to 181. A \<^verbatim>\<open>throw\<close> is \<open>Inl\<close>, with the state as the throw leaves it.\<close>

definition createIframeVirtualEnvironment ::
  "collaborators \<Rightarrow> jsval \<Rightarrow> BrowserEnvironmentOptions option \<Rightarrow> world
     \<Rightarrow> (error + VirtualEnvironment) \<times> world" where
  "createIframeVirtualEnvironment c globalObject options s =
     (if typeof globalObject \<noteq> ''object'' \<or> globalObject = JNull
      then (Inl (TypeError ''Missing global object virtualization target.''), s)
      else
        let blueRefsValue = getCachedGlobalObjectReferences c globalObject in
        if typeof blueRefsValue \<noteq> ''object'' \<or> blueRefsValue = JNull
        then (Inl (TypeError ''Invalid virtualization target.''), s)
        else
          case blueRefsValue of
            JObject r \<Rightarrow>
              let blueRefs = recordFields c r;
                  opts = destructure options
              in (case createDetachableIframe (document blueRefs) s of
                    (Inl e, s1) \<Rightarrow> (Inl e, s1)
                  | (Inr iframe, s1) \<Rightarrow> virtualize c globalObject blueRefs opts iframe s1)
          | _ \<Rightarrow> (Inl (TypeError ''Invalid virtualization target.''), s))"

text \<open>A sequence of calls in one process: each call starts in the state the one before
  left.\<close>

fun run ::
  "collaborators \<Rightarrow> (jsval \<times> BrowserEnvironmentOptions option) list \<Rightarrow> world
     \<Rightarrow> (error + VirtualEnvironment) list \<times> world" where
  "run c [] s = ([], s)"
| "run c ((globalObject, options) # rest) s =
     (let (r, s1) = createIframeVirtualEnvironment c globalObject options s;
          (rs, s2) = run c rest s1
      in (r # rs, s2))"

section \<open>Reading an environment and the module state\<close>

text \<open>The arguments of the \<^verbatim>\<open>lazyRemapProperties\<close> calls made on an environment, in order,
  and the key list passed to the first of them (lines 146 to 156).\<close>

fun lazyRemapCalls :: "env_call list \<Rightarrow> (ref \<times> PropertyKeys \<times> PropertyKeys option) list" where
  "lazyRemapCalls [] = []"
| "lazyRemapCalls (LazyRemapProperties target ownKeys excluded # cs) =
     (target, ownKeys, excluded) # lazyRemapCalls cs"
| "lazyRemapCalls (_ # cs) = lazyRemapCalls cs"

definition lazyRemapOwnKeys :: "VirtualEnvironment \<Rightarrow> PropertyKeys" where
  "lazyRemapOwnKeys env =
     (case lazyRemapCalls (calls env) of [] \<Rightarrow> [] | (target, ownKeys, excluded) # _ \<Rightarrow> ownKeys)"

text \<open>The connector cache is well formed: one entry per document, no connector under two
  documents, and every cached connector a reference already allocated.\<close>

definition cacheInvariant :: "world \<Rightarrow> bool" where
  "cacheInvariant s =
     (distinct (map fst (blueDocumentToBlueCreateHooksCallbackMap s))
      \<and> distinct (map snd (blueDocumentToBlueCreateHooksCallbackMap s))
      \<and> list_all (\<lambda>(d, k). k < nextRef s) (blueDocumentToBlueCreateHooksCallbackMap s))"

section \<open>What an environment bridges\<close>










section \<open>A small host\<close>

text \<open>
  Two host realms. The first: a document (reference 0) with an \<^verbatim>\<open>html\<close> element (1) holding
  a \<^verbatim>\<open>body\<close> (2), its window (3), the record the resolver returns for that window (4) and
  the prototypes (5, 6). The second: a document (10) with \<^verbatim>\<open>html\<close> (11) and \<^verbatim>\<open>body\<close> (12),
  its window (13) and its record (14). A shape object (7) and a function (8). References
  from 20 on are free.
\<close>

definition hostWorld :: world where
  "hostWorld =
     \<lparr>nodeKind = (\<lambda>_. None)(0 := Some DocumentNode, 1 := Some (ElementNode ''html''),
                               2 := Some (ElementNode ''body''), 10 := Some DocumentNode,
                               11 := Some (ElementNode ''html''),
                               12 := Some (ElementNode ''body'')),
      childNodes = (\<lambda>_. [])(0 := [1], 1 := [2], 10 := [11], 11 := [12]),
      parentNode = (\<lambda>_. None)(1 := Some 0, 2 := Some 1, 11 := Some 10, 12 := Some 11),
      attributes = (\<lambda>_ _. None),
      style = (\<lambda>_ _. None),
      ownerDocument = (\<lambda>_. None)(1 := Some 0, 2 := Some 0, 11 := Some 10, 12 := Some 10),
      hasBrowsingContext = (\<lambda>_. False)(0 := True, 10 := True),
      createsHTMLElements = (\<lambda>_. False)(0 := True, 10 := True),
      isHTMLElement = (\<lambda>_. False)(1 := True, 2 := True, 11 := True, 12 := True),
      contentWindow = (\<lambda>_. None),
      windowDocument = (\<lambda>_. None)(3 := Some 0, 13 := Some 10),
      nextRef = 20,
      defaultGlobalOwnKeys = None,
      blueDocumentToBlueCreateHooksCallbackMap = [],
      events = []\<rparr>"

text \<open>The same host with no \<^verbatim>\<open>body\<close> in the first document: its only child is the \<^verbatim>\<open>html\<close>
  element.\<close>

definition bodilessWorld :: world where
  "bodilessWorld =
     hostWorld\<lparr>nodeKind := (nodeKind hostWorld)(2 := None),
               childNodes := (childNodes hostWorld)(1 := []),
               parentNode := (parentNode hostWorld)(2 := None),
               ownerDocument := (ownerDocument hostWorld)(2 := None)\<rparr>"

text \<open>The same host with XML documents: the \<^verbatim>\<open>html\<close> and \<^verbatim>\<open>body\<close> elements are of the HTML
  namespace, but \<^verbatim>\<open>createElement\<close> gives plain elements.\<close>

definition xmlWorld :: world where
  "xmlWorld = hostWorld\<lparr>createsHTMLElements := (\<lambda>_. False)\<rparr>"

definition hostRecord :: CachedBlueReferencesRecord where
  "hostRecord =
     \<lparr>document = 0, DocumentProto = 5, window = 3, EventTargetProto = 6,
      EventTargetProtoOwnKeys = [KeyString ''addEventListener'']\<rparr>"

definition secondRecord :: CachedBlueReferencesRecord where
  "secondRecord =
     \<lparr>document = 10, DocumentProto = 5, window = 13, EventTargetProto = 6,
      EventTargetProtoOwnKeys = [KeyString ''addEventListener'']\<rparr>"

text \<open>Collaborators for that host: the own keys of the first host window, of the shape
  object and of any other window differ, so that it shows which object a key list came
  from.\<close>

definition hostCollaborators :: collaborators where
  "hostCollaborators =
     \<lparr>getCachedGlobalObjectReferences =
        (\<lambda>v. if v = JObject 3 then JObject 4 else if v = JObject 13 then JObject 14
             else JUndefined),
      recordFields = (\<lambda>r. if r = 14 then secondRecord else hostRecord),
      getFilteredGlobalOwnKeys =
        (\<lambda>v. if v = JObject 3 then [KeyString ''window'', KeyString ''top'', KeyString ''hostOnly'']
             else if v = JObject 7 then [KeyString ''top'', KeyString ''foo'']
             else [KeyString ''window'', KeyString ''top'', KeyString ''fetch'']),
      filterWindowKeys = filter (\<lambda>k. k \<noteq> KeyString ''top''),
      assignFilteredGlobalDescriptorsFromPropertyDescriptorMap = (\<lambda>target source. target @ source),
      removeWindowDescriptors = filter (\<lambda>(k, d). k \<noteq> KeyString ''top''),
      unforgeablePoisonedWindowKeys = [KeyString ''window''],
      globalThisDefined = True\<rparr>"

definition keepAliveOptions :: BrowserEnvironmentOptions where
  "keepAliveOptions = noOptions\<lparr>keepAlive := Some True\<rparr>"

definition shapeOptions :: BrowserEnvironmentOptions where
  "shapeOptions = noOptions\<lparr>globalObjectShape := JObject 7\<rparr>"

definition keepAliveShapeOptions :: BrowserEnvironmentOptions where
  "keepAliveShapeOptions = noOptions\<lparr>globalObjectShape := JObject 7, keepAlive := Some True\<rparr>"

text \<open>Endowments: one new name, one name that is also a key of a fresh window, and names
  of the tables used below.\<close>

definition endowedOptions :: BrowserEnvironmentOptions where
  "endowedOptions =
     noOptions\<lparr>endowments :=
                 Some [(KeyString ''foo'', JObject 15), (KeyString ''fetch'', JObject 16),
                       (KeyString ''top'', JObject 16), (KeyString ''Object'', JObject 17),
                       (KeyString ''document'', JObject 18),
                       (KeyString ''__proto__'', JObject 19)]\<rparr>"

text \<open>An endowment under a poisoned name.\<close>

definition poisonedEndowmentOptions :: BrowserEnvironmentOptions where
  "poisonedEndowmentOptions =
     noOptions\<lparr>endowments := Some [(KeyString ''window'', JObject 15)]\<rparr>"

named_theorems model_defs

declare typeof_def [model_defs]
declare IFRAME_SANDBOX_ATTRIBUTE_VALUE_def [model_defs]
declare DocumentProtoCreateElement_def [model_defs]
declare isElement_def [model_defs]
declare hasTag_def [model_defs]
declare DocumentProtoBodyGetter_def [model_defs]
declare NodeProtoLastChildGetter_def [model_defs]
declare HTMLElementProtoStyleGetter_def [model_defs]
declare setStyle_def [model_defs]
declare ElementProtoSetAttribute_def [model_defs]
declare detach_def [model_defs]
declare acceptsElementChild_def [model_defs]
declare createNestedBrowsingContext_def [model_defs]
declare NodeProtoAppendChild_def [model_defs]
declare ElementProtoRemove_def [model_defs]
declare DocumentProtoOpen_def [model_defs]
declare DocumentProtoClose_def [model_defs]
declare createBlueConnector_def [model_defs]
declare createRedConnector_def [model_defs]
declare noOptions_def [model_defs]
declare destructure_def [model_defs]
declare keepAliveOf_def [model_defs]
declare iframeParent_def [model_defs]
declare createDetachableIframe_def [model_defs]
declare createDetachableIframeStates_def [model_defs]
declare shouldUseDefaultGlobalOwnKeys_def [model_defs]
declare windowValue_def [model_defs]
declare initDefaultGlobalOwnKeys_def [model_defs]
declare getBlueConnector_def [model_defs]
declare globalOwnKeys_def [model_defs]
declare configure_def [model_defs]
declare lifecycle_def [model_defs]
declare virtualize_def [model_defs]
declare createIframeVirtualEnvironment_def [model_defs]
declare lazyRemapOwnKeys_def [model_defs]
declare hostWorld_def [model_defs]
declare bodilessWorld_def [model_defs]
declare xmlWorld_def [model_defs]
declare hostRecord_def [model_defs]
declare secondRecord_def [model_defs]
declare hostCollaborators_def [model_defs]
declare keepAliveOptions_def [model_defs]
declare shapeOptions_def [model_defs]
declare keepAliveShapeOptions_def [model_defs]
declare endowedOptions_def [model_defs]
declare poisonedEndowmentOptions_def [model_defs]

section \<open>Facts about the operations\<close>

lemma styleGetter_Inr:
  "(HTMLElementProtoStyleGetter s n = Inr d) = (isHTMLElement s n \<and> d = n)"
  by (auto simp: HTMLElementProtoStyleGetter_def)

lemma styleGetter_Inl:
  "(HTMLElementProtoStyleGetter s n = Inl e) = (\<not> isHTMLElement s n \<and> e = TypeError ''Illegal invocation'')"
  by (auto simp: HTMLElementProtoStyleGetter_def)

lemma body_after_create:
  assumes "nextRefUnused s" "nodeKind s doc = Some DocumentNode"
    and "DocumentProtoCreateElement doc tag s = (r, s1)"
  shows "DocumentProtoBodyGetter s1 doc = DocumentProtoBodyGetter s doc"
proof -
  let ?n = "nextRef s"
  have s1: "childNodes s1 = (childNodes s)(?n := [])"
    "nodeKind s1 = (nodeKind s)(?n := Some (ElementNode tag))"
    "isHTMLElement s1 = (isHTMLElement s)(?n := createsHTMLElements s doc)"
    using assms by (auto simp: DocumentProtoCreateElement_def Let_def)
  have ne: "doc \<noteq> ?n" using assms by (auto simp: nextRefUnused_def)
  have fresh: "\<And>p x. x \<in> set (childNodes s p) \<Longrightarrow> x \<noteq> ?n"
    using assms(1) by (auto simp: nextRefUnused_def)
  have el: "\<And>x. x \<noteq> ?n \<Longrightarrow> isElement s1 x = isElement s x"
    by (simp add: isElement_def s1)
  have tg: "\<And>x ts. x \<noteq> ?n \<Longrightarrow> hasTag s1 ts x = hasTag s ts x"
    by (simp add: hasTag_def s1)
  have f1: "find (isElement s1) (childNodes s1 doc) = find (isElement s) (childNodes s doc)"
    using ne fresh el by (intro find_cong) (auto simp: s1)
  show ?thesis
  proof (cases "find (isElement s) (childNodes s doc)")
    case None
    then show ?thesis by (simp add: DocumentProtoBodyGetter_def f1)
  next
    case (Some root)
    then have "root \<in> set (childNodes s doc)" by (auto simp: find_Some_iff)
    then have rn: "root \<noteq> ?n" using fresh by blast
    have f2: "find (hasTag s1 ts) (childNodes s1 root) = find (hasTag s ts) (childNodes s root)" for ts
      using rn fresh tg by (intro find_cong) (auto simp: s1)
    show ?thesis using Some rn by (simp add: DocumentProtoBodyGetter_def f1 f2 tg)
  qed
qed

lemma iframeParent_after_create:
  assumes "nextRefUnused s" "nodeKind s doc = Some DocumentNode"
    and "DocumentProtoCreateElement doc tag s = (r, s1)"
  shows "iframeParent s1 doc = iframeParent s doc"
proof -
  have "childNodes s1 doc = childNodes s doc"
    using assms by (auto simp: DocumentProtoCreateElement_def Let_def nextRefUnused_def)
  then have "NodeProtoLastChildGetter s1 doc = NodeProtoLastChildGetter s doc"
    by (simp add: NodeProtoLastChildGetter_def)
  then show ?thesis
    using body_after_create [OF assms] by (simp add: iframeParent_def split: option.splits)
qed

lemma find_Some_set: "find P xs = Some x \<Longrightarrow> x \<in> set xs \<and> P x"
  by (induction xs) (auto split: if_splits)

lemma body_is_child:
  "DocumentProtoBodyGetter s doc = Some b \<Longrightarrow>
     \<exists>root. root \<in> set (childNodes s doc) \<and> b \<in> set (childNodes s root)
       \<and> hasTag s [''body'', ''frameset''] b"
  unfolding DocumentProtoBodyGetter_def
  by (auto split: option.splits if_splits dest!: find_Some_set)

lemma lastChild_is_child:
  "NodeProtoLastChildGetter s n = Some p \<Longrightarrow> p \<in> set (childNodes s n)"
  unfolding NodeProtoLastChildGetter_def
  by (cases "childNodes s n") (auto split: if_splits)

lemma iframeParent_is_child:
  "iframeParent s doc = Some p \<Longrightarrow> \<exists>q. p \<in> set (childNodes s q)"
  unfolding iframeParent_def
  by (auto split: option.splits dest: body_is_child lastChild_is_child)

lemma iframeParent_not_fresh:
  assumes "nextRefUnused s" "iframeParent s doc = Some p"
  shows "p \<noteq> nextRef s"
  using assms iframeParent_is_child [of s doc p] by (auto simp: nextRefUnused_def)


lemma create_fields:
  assumes "DocumentProtoCreateElement doc tag s = (Inr n, s1)"
  shows "n = nextRef s" "nodeKind s doc = Some DocumentNode"
    "nodeKind s1 = (nodeKind s)(n := Some (ElementNode tag))"
    "childNodes s1 = (childNodes s)(n := [])"
    "parentNode s1 = (parentNode s)(n := None)"
    "attributes s1 = (attributes s)(n := (\<lambda>_. None))"
    "style s1 = (style s)(n := (\<lambda>_. None))"
    "ownerDocument s1 = (ownerDocument s)(n := Some doc)"
    "hasBrowsingContext s1 = hasBrowsingContext s"
    "contentWindow s1 = (contentWindow s)(n := None)"
    "windowDocument s1 = windowDocument s"
    "nextRef s1 = nextRef s + 1"
    "defaultGlobalOwnKeys s1 = defaultGlobalOwnKeys s"
    "blueDocumentToBlueCreateHooksCallbackMap s1 = blueDocumentToBlueCreateHooksCallbackMap s"
    "events s1 = events s @ [CreateElement doc tag n]"
    "isHTMLElement s1 = (isHTMLElement s)(n := createsHTMLElements s doc)"
    "createsHTMLElements s1 = createsHTMLElements s"
  using assms by (auto simp: DocumentProtoCreateElement_def Let_def split: if_splits)

lemma createDetachableIframe_Inr:
  assumes ok: "createDetachableIframe doc s = (Inr iframe, s')" and fresh: "nextRefUnused s"
  obtains p where
    "iframe = nextRef s" "nodeKind s doc = Some DocumentNode"
    "iframeParent s doc = Some p" "p \<noteq> iframe"
    "childNodes s' = (childNodes s)(iframe := [], p := childNodes s p @ [iframe])"
    "parentNode s' = (parentNode s)(iframe := Some p)"
    "attributes s' iframe ''sandbox'' = Some IFRAME_SANDBOX_ATTRIBUTE_VALUE"
    "style s' iframe ''display'' = Some ''none''"
    "events s' = events s @ [CreateElement doc ''iframe'' iframe, SetStyle iframe ''display'' ''none'',
       SetAttribute iframe ''sandbox'' IFRAME_SANDBOX_ATTRIBUTE_VALUE, AppendChild p iframe]"
    "defaultGlobalOwnKeys s' = defaultGlobalOwnKeys s"
    "blueDocumentToBlueCreateHooksCallbackMap s' = blueDocumentToBlueCreateHooksCallbackMap s"
    "contentWindow s' iframe = (if hasBrowsingContext s doc then Some (nextRef s + 1) else None)"
    "hasBrowsingContext s doc \<Longrightarrow> windowDocument s' (nextRef s + 1) = Some (nextRef s + 2)"
    "nextRef s \<le> nextRef s'"
    "createsHTMLElements s doc"
proof -
  obtain r s1 where c: "DocumentProtoCreateElement doc ''iframe'' s = (r, s1)"
    by (cases "DocumentProtoCreateElement doc ''iframe'' s")
  with ok obtain n where r: "r = Inr n"
    by (cases r) (auto simp: createDetachableIframe_def)
  note f = create_fields [OF c [unfolded r]]
  have par: "iframeParent s1 doc = iframeParent s doc"
    using iframeParent_after_create [OF fresh f(2) c] .
  define s3 where "s3 = ElementProtoSetAttribute n ''sandbox'' IFRAME_SANDBOX_ATTRIBUTE_VALUE
                          (setStyle n ''display'' ''none'' s1)"
  have app: "NodeProtoAppendChild (iframeParent s doc) n s3 = (Inr (), s')" and n: "iframe = n"
    and html: "isHTMLElement s1 n"
    using ok c r par
    by (auto simp: createDetachableIframe_def Let_def s3_def styleGetter_Inr
          split: prod.splits sum.splits)
  have cr: "createsHTMLElements s doc" using html by (simp add: f(16))
  from app obtain p where p: "iframeParent s doc = Some p"
    by (cases "iframeParent s doc") (auto simp: NodeProtoAppendChild_def)
  have pn: "p \<noteq> n" using iframeParent_not_fresh [OF fresh p] f(1) by simp
  have s': "s' = createNestedBrowsingContext n
              (s3\<lparr>childNodes := (childNodes s3)(p := childNodes s3 p @ [n]),
                  parentNode := (parentNode s3)(n := Some p),
                  events := events s3 @ [AppendChild p n]\<rparr>)"
    using app p f
    by (auto simp: NodeProtoAppendChild_def Let_def detach_def s3_def setStyle_def
          ElementProtoSetAttribute_def split: if_splits)
  show ?thesis
  proof (rule that [of p])
    show "iframe = nextRef s" using n f(1) by simp
    show "nodeKind s doc = Some DocumentNode" by (rule f(2))
    show "iframeParent s doc = Some p" by (rule p)
    show "p \<noteq> iframe" using pn n by simp
    show "childNodes s' = (childNodes s)(iframe := [], p := childNodes s p @ [iframe])"
      using pn by (auto simp: s' n s3_def f createNestedBrowsingContext_def Let_def
            setStyle_def ElementProtoSetAttribute_def fun_eq_iff)
    show "parentNode s' = (parentNode s)(iframe := Some p)"
      by (auto simp: s' n s3_def f createNestedBrowsingContext_def Let_def
            setStyle_def ElementProtoSetAttribute_def fun_eq_iff)
    show "attributes s' iframe ''sandbox'' = Some IFRAME_SANDBOX_ATTRIBUTE_VALUE"
      by (auto simp: s' n s3_def f createNestedBrowsingContext_def Let_def
            setStyle_def ElementProtoSetAttribute_def)
    show "style s' iframe ''display'' = Some ''none''"
      by (auto simp: s' n s3_def f createNestedBrowsingContext_def Let_def
            setStyle_def ElementProtoSetAttribute_def)
    show "events s' = events s @ [CreateElement doc ''iframe'' iframe, SetStyle iframe ''display'' ''none'',
       SetAttribute iframe ''sandbox'' IFRAME_SANDBOX_ATTRIBUTE_VALUE, AppendChild p iframe]"
      by (auto simp: s' n s3_def f createNestedBrowsingContext_def Let_def
            setStyle_def ElementProtoSetAttribute_def)
    show "defaultGlobalOwnKeys s' = defaultGlobalOwnKeys s"
      by (auto simp: s' n s3_def f createNestedBrowsingContext_def Let_def
            setStyle_def ElementProtoSetAttribute_def)
    show "blueDocumentToBlueCreateHooksCallbackMap s' = blueDocumentToBlueCreateHooksCallbackMap s"
      by (auto simp: s' n s3_def f createNestedBrowsingContext_def Let_def
            setStyle_def ElementProtoSetAttribute_def)
    show "contentWindow s' iframe = (if hasBrowsingContext s doc then Some (nextRef s + 1) else None)"
      using pn cr by (auto simp: s' n s3_def f createNestedBrowsingContext_def Let_def hasTag_def
            setStyle_def ElementProtoSetAttribute_def)
    show "hasBrowsingContext s doc \<Longrightarrow> windowDocument s' (nextRef s + 1) = Some (nextRef s + 2)"
      using pn cr by (auto simp: s' n s3_def f createNestedBrowsingContext_def Let_def hasTag_def
            setStyle_def ElementProtoSetAttribute_def)
    show "nextRef s \<le> nextRef s'"
      by (auto simp: s' n s3_def f createNestedBrowsingContext_def Let_def
            setStyle_def ElementProtoSetAttribute_def)
    show "createsHTMLElements s doc" by (rule cr)
  qed
qed


lemma iframe_states_guarded:
  assumes fresh: "nextRefUnused s"
  shows "\<forall>t \<in> set (createDetachableIframeStates doc s).
           attached t (nextRef s) \<longrightarrow> sandboxedHidden t (nextRef s)"
proof (cases "DocumentProtoCreateElement doc ''iframe'' s")
  case (Pair r s1)
  show ?thesis
  proof (cases r)
    case (Inl e)
    then have "s1 = s" using Pair
      by (auto simp: DocumentProtoCreateElement_def Let_def split: if_splits)
    then show ?thesis using Pair Inl fresh
      by (simp add: createDetachableIframeStates_def attached_def nextRefUnused_def)
  next
    case (Inr n)
    note f = create_fields [OF Pair [unfolded Inr]]
    have n: "n = nextRef s" by (rule f(1))
    have nochild: "\<And>p. n \<notin> set (childNodes s1 p)"
      using fresh by (simp add: f(4) nextRefUnused_def n)
    define s2 where "s2 = setStyle n ''display'' ''none'' s1"
    define s3 where "s3 = ElementProtoSetAttribute n ''sandbox'' IFRAME_SANDBOX_ATTRIBUTE_VALUE s2"
    define s4 where "s4 = snd (NodeProtoAppendChild (iframeParent s1 doc) n s3)"
    have st: "createDetachableIframeStates doc s =
                (if isHTMLElement s1 n then [s1, s2, s3, s4] else [s1])"
      using Pair Inr
      by (simp add: createDetachableIframeStates_def Let_def s2_def s3_def s4_def
            HTMLElementProtoStyleGetter_def)
    have a1: "\<not> attached s1 n" using nochild by (simp add: attached_def f)
    have a2: "\<not> attached s2 n" using nochild by (simp add: attached_def f s2_def setStyle_def)
    have a3: "\<not> attached s3 n" using nochild
      by (simp add: attached_def f s3_def s2_def setStyle_def ElementProtoSetAttribute_def)
    have h3: "sandboxedHidden s3 n"
      by (simp add: sandboxedHidden_def s3_def s2_def setStyle_def ElementProtoSetAttribute_def)
    have h4: "sandboxedHidden s4 n"
      using h3
      by (auto simp: sandboxedHidden_def s4_def NodeProtoAppendChild_def Let_def detach_def
            createNestedBrowsingContext_def split: option.splits)
    show ?thesis using a1 a2 a3 h4 by (simp add: st n [symmetric])
  qed
qed

lemma iframe_states_last:
  "snd (createDetachableIframe doc s) = last (createDetachableIframeStates doc s)"
  by (auto simp: createDetachableIframe_def createDetachableIframeStates_def Let_def
        split: prod.splits sum.splits)

text \<open>Where \<^verbatim>\<open>createElement\<close> gives a plain element, line 79 throws and nothing is attached.\<close>

lemma createDetachableIframe_plain_element:
  assumes "nodeKind s doc = Some DocumentNode" "\<not> createsHTMLElements s doc"
  shows "fst (createDetachableIframe doc s) = Inl (TypeError ''Illegal invocation'')"
    and "childNodes (snd (createDetachableIframe doc s)) = (childNodes s)(nextRef s := [])"
    and "parentNode (snd (createDetachableIframe doc s)) (nextRef s) = None"
  using assms
  by (simp_all add: createDetachableIframe_def DocumentProtoCreateElement_def Let_def
        HTMLElementProtoStyleGetter_def)


lemma getBlueConnector_fields:
  assumes "getBlueConnector g doc s = (k, s1)"
  shows "sameNodes s s1" "defaultGlobalOwnKeys s1 = defaultGlobalOwnKeys s"
    "nextRef s \<le> nextRef s1"
    "map_of (blueDocumentToBlueCreateHooksCallbackMap s) doc = Some k' \<Longrightarrow>
       k = k' \<and> s1 = s"
    "map_of (blueDocumentToBlueCreateHooksCallbackMap s) doc = None \<Longrightarrow>
       k = nextRef s \<and> nextRef s1 = nextRef s + 1
       \<and> blueDocumentToBlueCreateHooksCallbackMap s1
           = weakMapSet doc k (blueDocumentToBlueCreateHooksCallbackMap s)"
  using assms
  by (auto simp: getBlueConnector_def createBlueConnector_def sameNodes_def Let_def
        split: option.splits)

lemma initDefault_fields:
  "sameNodes s (initDefaultGlobalOwnKeys c shape w s)"
  "nextRef (initDefaultGlobalOwnKeys c shape w s) = nextRef s"
  "blueDocumentToBlueCreateHooksCallbackMap (initDefaultGlobalOwnKeys c shape w s)
     = blueDocumentToBlueCreateHooksCallbackMap s"
  "defaultGlobalOwnKeys (initDefaultGlobalOwnKeys c shape w s)
     = (if shouldUseDefaultGlobalOwnKeys shape \<and> defaultGlobalOwnKeys s = None
        then Some (filterWindowKeys c (getFilteredGlobalOwnKeys c (windowValue w)))
        else defaultGlobalOwnKeys s)"
  by (auto simp: initDefaultGlobalOwnKeys_def sameNodes_def)

lemma createRedConnector_fields:
  assumes "createRedConnector w s = (k, s1)"
  shows "sameNodes s s1" "defaultGlobalOwnKeys s1 = defaultGlobalOwnKeys s"
    "blueDocumentToBlueCreateHooksCallbackMap s1 = blueDocumentToBlueCreateHooksCallbackMap s"
    "nextRef s1 = nextRef s + 1" "k = nextRef s"
  using assms by (auto simp: createRedConnector_def sameNodes_def)

lemma lifecycle_fields:
  assumes "lifecycle keep iframe w s = (r, s1)"
  shows "defaultGlobalOwnKeys s1 = defaultGlobalOwnKeys s"
    "blueDocumentToBlueCreateHooksCallbackMap s1 = blueDocumentToBlueCreateHooksCallbackMap s"
    "nextRef s1 = nextRef s"
  using assms
  by (auto simp: lifecycle_def ElementProtoRemove_def detach_def DocumentProtoOpen_def
        DocumentProtoClose_def split: if_splits option.splits)

lemma sameNodes_trans: "sameNodes a b \<Longrightarrow> sameNodes b d \<Longrightarrow> sameNodes a d"
  by (simp add: sameNodes_def)

text \<open>What a successful virtualize did.\<close>

lemma virtualize_Inr:
  assumes "virtualize c g r opts iframe s1 = (Inr env, s')"
  obtains w s4 where
    "contentWindow s1 iframe = Some w"
    "sameNodes s1 s4"
    "lifecycle (keepAliveOf opts) iframe w s4 = (Inr (), s')"
    "defaultGlobalOwnKeys s4 = defaultGlobalOwnKeys (initDefaultGlobalOwnKeys c (globalObjectShape opts) (Some w) s1)"
    "calls env = configure c g r opts (globalOwnKeys c (globalObjectShape opts) s4)"
    "map_of (blueDocumentToBlueCreateHooksCallbackMap s4) (document r) = Some (blueConnector env)"
proof -
  obtain w where w: "contentWindow s1 iframe = Some w"
    using assms by (cases "contentWindow s1 iframe")
      (auto simp: virtualize_def Let_def split: prod.splits)
  define s2 where "s2 = initDefaultGlobalOwnKeys c (globalObjectShape opts) (Some w) s1"
  obtain k s3 where g: "getBlueConnector g (document r) s2 = (k, s3)"
    by (cases "getBlueConnector g (document r) s2")
  obtain red s4 where rc: "createRedConnector w s3 = (red, s4)"
    by (cases "createRedConnector w s3")
  have res: "lifecycle (keepAliveOf opts) iframe w s4 = (Inr (), s')"
    and env: "env = \<lparr>blueConnector = k, redConnector = red,
                     envDistortionCallback = distortionCallback opts,
                     envInstrumentation = instrumentation opts,
                     calls = configure c g r opts (globalOwnKeys c (globalObjectShape opts) s4)\<rparr>"
    using assms w g rc
    by (auto simp: virtualize_def Let_def s2_def split: prod.splits sum.splits)
  have m3: "map_of (blueDocumentToBlueCreateHooksCallbackMap s3) (document r) = Some k"
  proof (cases "map_of (blueDocumentToBlueCreateHooksCallbackMap s2) (document r)")
    case None
    have "map_of (weakMapSet d v m) d = Some v" for d v and m :: "(ref \<times> ref) list"
      by (induction m) auto
    then show ?thesis using getBlueConnector_fields(5) [OF g None] by simp
  next
    case (Some k')
    then show ?thesis using getBlueConnector_fields(4) [OF g Some] by simp
  qed
  show ?thesis
  proof (rule that [of w s4])
    show "contentWindow s1 iframe = Some w" by (rule w)
    show "sameNodes s1 s4"
      using initDefault_fields(1) [of s1 c "globalObjectShape opts" "Some w"]
        getBlueConnector_fields(1) [OF g] createRedConnector_fields(1) [OF rc]
      unfolding s2_def [symmetric] by (blast intro: sameNodes_trans)
    show "lifecycle (keepAliveOf opts) iframe w s4 = (Inr (), s')" by (rule res)
    show "defaultGlobalOwnKeys s4 = defaultGlobalOwnKeys (initDefaultGlobalOwnKeys c (globalObjectShape opts) (Some w) s1)"
      using getBlueConnector_fields(2) [OF g] createRedConnector_fields(2) [OF rc]
      by (simp add: s2_def)
    show "calls env = configure c g r opts (globalOwnKeys c (globalObjectShape opts) s4)"
      by (simp add: env)
    show "map_of (blueDocumentToBlueCreateHooksCallbackMap s4) (document r) = Some (blueConnector env)"
      using m3 createRedConnector_fields(3) [OF rc] by (simp add: env)
  qed
qed

text \<open>What a successful call did.\<close>

lemma call_Inr:
  assumes "createIframeVirtualEnvironment c g options s = (Inr env, s')"
  obtains r iframe s1 where
    "g \<noteq> JNull" "typeof g = ''object''"
    "getCachedGlobalObjectReferences c g = JObject r"
    "createDetachableIframe (document (recordFields c r)) s = (Inr iframe, s1)"
    "virtualize c g (recordFields c r) (destructure options) iframe s1 = (Inr env, s')"
  using assms
  by (auto simp: createIframeVirtualEnvironment_def Let_def
        split: if_splits jsval.splits prod.splits sum.splits)

lemma createDetachableIframe_module:
  assumes "createDetachableIframe doc s = (r, s1)"
  shows "defaultGlobalOwnKeys s1 = defaultGlobalOwnKeys s"
    "blueDocumentToBlueCreateHooksCallbackMap s1 = blueDocumentToBlueCreateHooksCallbackMap s"
    "nextRef s \<le> nextRef s1"
proof -
  have ap: "defaultGlobalOwnKeys (snd (NodeProtoAppendChild p n t)) = defaultGlobalOwnKeys t
      \<and> blueDocumentToBlueCreateHooksCallbackMap (snd (NodeProtoAppendChild p n t))
          = blueDocumentToBlueCreateHooksCallbackMap t
      \<and> nextRef t \<le> nextRef (snd (NodeProtoAppendChild p n t))" for p n t
    by (auto simp: NodeProtoAppendChild_def Let_def detach_def createNestedBrowsingContext_def
          split: option.splits)
  show "defaultGlobalOwnKeys s1 = defaultGlobalOwnKeys s"
    "blueDocumentToBlueCreateHooksCallbackMap s1 = blueDocumentToBlueCreateHooksCallbackMap s"
    "nextRef s \<le> nextRef s1"
    using assms
      ap [of "iframeParent (snd (DocumentProtoCreateElement doc ''iframe'' s)) doc" "nextRef s"
            "ElementProtoSetAttribute (nextRef s) ''sandbox'' IFRAME_SANDBOX_ATTRIBUTE_VALUE
               (setStyle (nextRef s) ''display'' ''none''
                  (snd (DocumentProtoCreateElement doc ''iframe'' s)))"]
    by (auto simp: createDetachableIframe_def Let_def DocumentProtoCreateElement_def
          setStyle_def ElementProtoSetAttribute_def HTMLElementProtoStyleGetter_def
          split: if_splits prod.splits sum.splits)
qed

lemma virtualize_module:
  assumes "virtualize c g r opts iframe s1 = (res, s')"
  obtains k s3 where
    "getBlueConnector g (document r)
       (initDefaultGlobalOwnKeys c (globalObjectShape opts) (contentWindow s1 iframe) s1) = (k, s3)"
    "defaultGlobalOwnKeys s' = defaultGlobalOwnKeys s3"
    "blueDocumentToBlueCreateHooksCallbackMap s' = blueDocumentToBlueCreateHooksCallbackMap s3"
    "nextRef s3 \<le> nextRef s'"
proof -
  define s2 where "s2 = initDefaultGlobalOwnKeys c (globalObjectShape opts) (contentWindow s1 iframe) s1"
  obtain k s3 where g: "getBlueConnector g (document r) s2 = (k, s3)"
    by (cases "getBlueConnector g (document r) s2")
  show ?thesis
  proof (cases "contentWindow s1 iframe")
    case None
    then have "s' = s3" using assms g by (simp add: virtualize_def Let_def s2_def)
    then show ?thesis using g that [of k s3] by (simp add: s2_def)
  next
    case (Some w)
    obtain red s4 where rc: "createRedConnector w s3 = (red, s4)"
      by (cases "createRedConnector w s3")
    obtain lr where lc: "lifecycle (keepAliveOf opts) iframe w s4 = (lr, s')"
      using assms g rc Some
      by (cases "lifecycle (keepAliveOf opts) iframe w s4")
        (auto simp: virtualize_def Let_def s2_def split: sum.splits)
    show ?thesis
      using that [of k s3] g createRedConnector_fields [OF rc] lifecycle_fields [OF lc]
      by (simp add: s2_def)
  qed
qed

lemma call_cases:
  obtains (invalid) "snd (createIframeVirtualEnvironment c g options s) = s"
        "\<exists>e. fst (createIframeVirtualEnvironment c g options s) = Inl e"
  | (iframe_failed) r e s1 where "getCachedGlobalObjectReferences c g = JObject r"
        "createDetachableIframe (document (recordFields c r)) s = (Inl e, s1)"
        "createIframeVirtualEnvironment c g options s = (Inl e, s1)"
  | (virtualized) r iframe s1 where "getCachedGlobalObjectReferences c g = JObject r"
        "createDetachableIframe (document (recordFields c r)) s = (Inr iframe, s1)"
        "createIframeVirtualEnvironment c g options s
           = virtualize c g (recordFields c r) (destructure options) iframe s1"
proof (cases "typeof g \<noteq> ''object'' \<or> g = JNull")
  case True
  then show ?thesis by (intro invalid) (simp_all add: createIframeVirtualEnvironment_def)
next
  case g: False
  show ?thesis
  proof (cases "getCachedGlobalObjectReferences c g")
    case (JObject r)
    obtain x s1 where cdi: "createDetachableIframe (document (recordFields c r)) s = (x, s1)"
      by (cases "createDetachableIframe (document (recordFields c r)) s")
    show ?thesis
    proof (cases x)
      case (Inl e)
      show ?thesis
        using g JObject cdi Inl
        by (intro iframe_failed [of r e s1])
          (simp_all add: createIframeVirtualEnvironment_def Let_def typeof_def)
    next
      case (Inr iframe)
      show ?thesis
        using g JObject cdi Inr
        by (intro virtualized [of r iframe s1])
          (simp_all add: createIframeVirtualEnvironment_def Let_def typeof_def)
    qed
  qed (use g in \<open>(intro invalid; simp add: createIframeVirtualEnvironment_def Let_def typeof_def)+\<close>)
qed


lemma call_default:
  assumes "createIframeVirtualEnvironment c g options s = (res, s')"
  shows "defaultGlobalOwnKeys s = Some ks \<Longrightarrow> defaultGlobalOwnKeys s' = Some ks"
    and "\<not> shouldUseDefaultGlobalOwnKeys (globalObjectShape (destructure options)) \<Longrightarrow>
           defaultGlobalOwnKeys s' = defaultGlobalOwnKeys s"
proof -
  have "(defaultGlobalOwnKeys s = Some ks \<longrightarrow> defaultGlobalOwnKeys s' = Some ks)
      \<and> (\<not> shouldUseDefaultGlobalOwnKeys (globalObjectShape (destructure options)) \<longrightarrow>
           defaultGlobalOwnKeys s' = defaultGlobalOwnKeys s)"
  proof (cases rule: call_cases [of c g options s])
    case invalid
    then show ?thesis using assms by simp
  next
    case (iframe_failed r e s1)
    then show ?thesis using assms createDetachableIframe_module(1) [OF iframe_failed(2)] by simp
  next
    case (virtualized r iframe s1)
    then have v: "virtualize c g (recordFields c r) (destructure options) iframe s1 = (res, s')"
      using assms by simp
    from v obtain k s3 where
      gb: "getBlueConnector g (document (recordFields c r))
             (initDefaultGlobalOwnKeys c (globalObjectShape (destructure options))
                (contentWindow s1 iframe) s1) = (k, s3)"
      and d: "defaultGlobalOwnKeys s' = defaultGlobalOwnKeys s3"
      by (rule virtualize_module)
    show ?thesis
      using d getBlueConnector_fields(2) [OF gb] createDetachableIframe_module(1) [OF virtualized(2)]
      by (simp add: initDefault_fields(4))
  qed
  then show "defaultGlobalOwnKeys s = Some ks \<Longrightarrow> defaultGlobalOwnKeys s' = Some ks"
    and "\<not> shouldUseDefaultGlobalOwnKeys (globalObjectShape (destructure options)) \<Longrightarrow>
           defaultGlobalOwnKeys s' = defaultGlobalOwnKeys s"
    by simp_all
qed

lemma snd_run_Cons:
  "snd (run c ((g, options) # ins) s)
     = snd (run c ins (snd (createIframeVirtualEnvironment c g options s)))"
  by (simp add: Let_def split: prod.splits)

lemma run_default:
  "defaultGlobalOwnKeys s = Some ks \<Longrightarrow> defaultGlobalOwnKeys (snd (run c ins s)) = Some ks"
proof (induction ins arbitrary: s)
  case Nil
  then show ?case by simp
next
  case (Cons a ins)
  obtain g options where a: "a = (g, options)" by (cases a)
  obtain res s1 where c1: "createIframeVirtualEnvironment c g options s = (res, s1)"
    by (cases "createIframeVirtualEnvironment c g options s")
  have "defaultGlobalOwnKeys s1 = Some ks" using call_default(1) [OF c1] Cons.prems by simp
  then have "defaultGlobalOwnKeys (snd (run c ins s1)) = Some ks" by (rule Cons.IH)
  then show ?case by (simp add: a c1 snd_run_Cons del: run.simps)
qed

lemma lazyRemapCalls_configure:
  "lazyRemapCalls (configure c g r opts ownKeys) =
     [(window r, ownKeys, if keepAliveOf opts then None else Some (unforgeablePoisonedWindowKeys c)),
      (EventTargetProto r, EventTargetProtoOwnKeys r, None)]"
  by (simp add: configure_def split: option.splits)

text \<open>A successful call with no valid shape: the cell is set and its content was passed.\<close>

lemma call_default_used:
  assumes ok: "createIframeVirtualEnvironment c g options s = (Inr env, s')"
    and sh: "shouldUseDefaultGlobalOwnKeys (globalObjectShape (destructure options))"
  shows "defaultGlobalOwnKeys s' = Some (lazyRemapOwnKeys env)"
proof -
  from ok obtain r iframe s1 where
    vz: "virtualize c g (recordFields c r) (destructure options) iframe s1 = (Inr env, s')"
    by (rule call_Inr)
  from vz obtain w s4 where
    lc: "lifecycle (keepAliveOf (destructure options)) iframe w s4 = (Inr (), s')"
    and d4: "defaultGlobalOwnKeys s4 = defaultGlobalOwnKeys
        (initDefaultGlobalOwnKeys c (globalObjectShape (destructure options)) (Some w) s1)"
    and cl: "calls env = configure c g (recordFields c r) (destructure options)
        (globalOwnKeys c (globalObjectShape (destructure options)) s4)"
    by (rule virtualize_Inr)
  have "defaultGlobalOwnKeys s4 \<noteq> None"
    using sh by (simp add: d4 initDefault_fields(4))
  then obtain ks where ks: "defaultGlobalOwnKeys s4 = Some ks" by auto
  have "lazyRemapOwnKeys env = ks"
    using sh ks by (simp add: lazyRemapOwnKeys_def cl lazyRemapCalls_configure globalOwnKeys_def)
  then show ?thesis using lifecycle_fields(1) [OF lc] ks by simp
qed

lemma weakMapSet_absent: "map_of m d = None \<Longrightarrow> weakMapSet d v m = m @ [(d, v)]"
  by (induction m) (auto split: if_splits)

lemma cacheInvariant_mono:
  assumes "cacheInvariant s"
    and "blueDocumentToBlueCreateHooksCallbackMap s1 = blueDocumentToBlueCreateHooksCallbackMap s"
    and "nextRef s \<le> nextRef s1"
  shows "cacheInvariant s1"
  using assms by (auto simp: cacheInvariant_def list_all_iff)

lemma getBlueConnector_cache:
  assumes inv: "cacheInvariant s" and gb: "getBlueConnector g d s = (k, s1)"
  shows "cacheInvariant s1"
    and "map_of (blueDocumentToBlueCreateHooksCallbackMap s1) d = Some k"
    and "map_of (blueDocumentToBlueCreateHooksCallbackMap s) d' = Some k' \<Longrightarrow>
           map_of (blueDocumentToBlueCreateHooksCallbackMap s1) d' = Some k'"
    and "map_of (blueDocumentToBlueCreateHooksCallbackMap s) d \<noteq> None \<Longrightarrow>
           blueDocumentToBlueCreateHooksCallbackMap s1 = blueDocumentToBlueCreateHooksCallbackMap s"
proof -
  let ?m = "blueDocumentToBlueCreateHooksCallbackMap s"
  have "cacheInvariant s1
      \<and> map_of (blueDocumentToBlueCreateHooksCallbackMap s1) d = Some k
      \<and> (map_of ?m d' = Some k' \<longrightarrow> map_of (blueDocumentToBlueCreateHooksCallbackMap s1) d' = Some k')
      \<and> (map_of ?m d \<noteq> None \<longrightarrow> blueDocumentToBlueCreateHooksCallbackMap s1 = ?m)"
  proof (cases "map_of ?m d")
    case None
    have f: "k = nextRef s" "nextRef s1 = nextRef s + 1"
      "blueDocumentToBlueCreateHooksCallbackMap s1 = ?m @ [(d, k)]"
      using getBlueConnector_fields(5) [OF gb None] weakMapSet_absent [OF None] by simp_all
    have dk: "d \<notin> fst ` set ?m" using None by (simp add: map_of_eq_None_iff)
    have kk: "k \<notin> snd ` set ?m" using inv f(1) by (auto simp: cacheInvariant_def list_all_iff)
    have "cacheInvariant s1"
      using inv dk kk f by (auto simp: cacheInvariant_def list_all_iff)
    moreover have "map_of (?m @ [(d, k)]) d = Some k"
      using None by (simp add: map_add_def)
    moreover have "map_of ?m d' = Some k' \<longrightarrow> map_of (?m @ [(d, k)]) d' = Some k'"
      by (simp add: map_add_def)
    ultimately show "cacheInvariant s1
      \<and> map_of (blueDocumentToBlueCreateHooksCallbackMap s1) d = Some k
      \<and> (map_of ?m d' = Some k' \<longrightarrow> map_of (blueDocumentToBlueCreateHooksCallbackMap s1) d' = Some k')
      \<and> (map_of ?m d \<noteq> None \<longrightarrow> blueDocumentToBlueCreateHooksCallbackMap s1 = ?m)"
      using None f(3) by simp
  next
    case (Some k0)
    have "k = k0 \<and> s1 = s" using getBlueConnector_fields(4) [OF gb Some] .
    then show "cacheInvariant s1
      \<and> map_of (blueDocumentToBlueCreateHooksCallbackMap s1) d = Some k
      \<and> (map_of ?m d' = Some k' \<longrightarrow> map_of (blueDocumentToBlueCreateHooksCallbackMap s1) d' = Some k')
      \<and> (map_of ?m d \<noteq> None \<longrightarrow> blueDocumentToBlueCreateHooksCallbackMap s1 = ?m)"
      using inv Some by simp
  qed
  then show "cacheInvariant s1"
    and "map_of (blueDocumentToBlueCreateHooksCallbackMap s1) d = Some k"
    and "map_of ?m d' = Some k' \<Longrightarrow>
           map_of (blueDocumentToBlueCreateHooksCallbackMap s1) d' = Some k'"
    and "map_of ?m d \<noteq> None \<Longrightarrow> blueDocumentToBlueCreateHooksCallbackMap s1 = ?m"
    by simp_all
qed

lemma call_cache:
  assumes inv: "cacheInvariant s"
    and call: "createIframeVirtualEnvironment c g options s = (res, s')"
  shows "cacheInvariant s'"
    and "map_of (blueDocumentToBlueCreateHooksCallbackMap s) d = Some k \<Longrightarrow>
           map_of (blueDocumentToBlueCreateHooksCallbackMap s') d = Some k"
proof -
  have "cacheInvariant s'
      \<and> (map_of (blueDocumentToBlueCreateHooksCallbackMap s) d = Some k \<longrightarrow>
           map_of (blueDocumentToBlueCreateHooksCallbackMap s') d = Some k)"
  proof (cases rule: call_cases [of c g options s])
    case invalid
    then show ?thesis using inv call by simp
  next
    case (iframe_failed r e s1)
    then show ?thesis
      using inv call createDetachableIframe_module [OF iframe_failed(2)]
      by (auto intro: cacheInvariant_mono)
  next
    case (virtualized r iframe s1)
    note m1 = createDetachableIframe_module [OF virtualized(2)]
    have inv1: "cacheInvariant s1" using inv m1 by (auto intro: cacheInvariant_mono)
    let ?s2 = "initDefaultGlobalOwnKeys c (globalObjectShape (destructure options))
                 (contentWindow s1 iframe) s1"
    have inv2: "cacheInvariant ?s2"
      using inv1 by (auto intro: cacheInvariant_mono simp: initDefault_fields)
    have v: "virtualize c g (recordFields c r) (destructure options) iframe s1 = (res, s')"
      using virtualized(3) call by simp
    from v obtain k0 s3 where
      gb: "getBlueConnector g (document (recordFields c r)) ?s2 = (k0, s3)"
      and c3: "blueDocumentToBlueCreateHooksCallbackMap s' = blueDocumentToBlueCreateHooksCallbackMap s3"
      and n3: "nextRef s3 \<le> nextRef s'"
      by (rule virtualize_module)
    have "cacheInvariant s'"
      using getBlueConnector_cache(1) [OF inv2 gb] c3 n3 by (auto intro: cacheInvariant_mono)
    moreover have "map_of (blueDocumentToBlueCreateHooksCallbackMap s) d = Some k \<longrightarrow>
           map_of (blueDocumentToBlueCreateHooksCallbackMap s') d = Some k"
      using getBlueConnector_cache(3) [OF inv2 gb, of d k] m1
      by (simp add: c3 initDefault_fields)
    ultimately show ?thesis by simp
  qed
  then show "cacheInvariant s'"
    and "map_of (blueDocumentToBlueCreateHooksCallbackMap s) d = Some k \<Longrightarrow>
           map_of (blueDocumentToBlueCreateHooksCallbackMap s') d = Some k"
    by simp_all
qed

lemma run_cache:
  "cacheInvariant s \<Longrightarrow>
     cacheInvariant (snd (run c ins s))
     \<and> (map_of (blueDocumentToBlueCreateHooksCallbackMap s) d = Some k \<longrightarrow>
          map_of (blueDocumentToBlueCreateHooksCallbackMap (snd (run c ins s))) d = Some k)"
proof (induction ins arbitrary: s)
  case Nil
  then show ?case by simp
next
  case (Cons a ins)
  obtain g options where a: "a = (g, options)" by (cases a)
  obtain res s1 where c1: "createIframeVirtualEnvironment c g options s = (res, s1)"
    by (cases "createIframeVirtualEnvironment c g options s")
  note cc = call_cache [OF Cons.prems c1]
  show ?case
    using Cons.IH [OF cc(1)] cc(2) [of d k]
    by (simp add: a c1 snd_run_Cons del: run.simps)
qed

text \<open>A successful call: the connector it used is the cache's entry for its document, and
  an entry that was there was neither rebuilt nor replaced.\<close>

lemma call_connector:
  assumes inv: "cacheInvariant s"
    and ok: "createIframeVirtualEnvironment c g options s = (Inr env, s')"
    and res: "getCachedGlobalObjectReferences c g = JObject r"
  shows "map_of (blueDocumentToBlueCreateHooksCallbackMap s') (document (recordFields c r))
           = Some (blueConnector env)"
    and "map_of (blueDocumentToBlueCreateHooksCallbackMap s) (document (recordFields c r)) \<noteq> None \<Longrightarrow>
           blueDocumentToBlueCreateHooksCallbackMap s' = blueDocumentToBlueCreateHooksCallbackMap s"
proof -
  let ?doc = "document (recordFields c r)"
  from ok res obtain iframe s1 where
    cdi: "createDetachableIframe ?doc s = (Inr iframe, s1)"
    and vz: "virtualize c g (recordFields c r) (destructure options) iframe s1 = (Inr env, s')"
    by (auto elim!: call_Inr)
  note m1 = createDetachableIframe_module [OF cdi]
  from vz obtain w s4 where
    lc: "lifecycle (keepAliveOf (destructure options)) iframe w s4 = (Inr (), s')"
    and m4: "map_of (blueDocumentToBlueCreateHooksCallbackMap s4) ?doc = Some (blueConnector env)"
    by (rule virtualize_Inr)
  show "map_of (blueDocumentToBlueCreateHooksCallbackMap s') ?doc = Some (blueConnector env)"
    using m4 lifecycle_fields(2) [OF lc] by simp
  assume hit: "map_of (blueDocumentToBlueCreateHooksCallbackMap s) ?doc \<noteq> None"
  let ?s2 = "initDefaultGlobalOwnKeys c (globalObjectShape (destructure options))
               (contentWindow s1 iframe) s1"
  have inv2: "cacheInvariant ?s2"
    using inv m1 by (auto intro: cacheInvariant_mono simp: initDefault_fields)
  from vz obtain k0 s3 where
    gb: "getBlueConnector g ?doc ?s2 = (k0, s3)"
    and c3: "blueDocumentToBlueCreateHooksCallbackMap s' = blueDocumentToBlueCreateHooksCallbackMap s3"
    by (rule virtualize_module)
  show "blueDocumentToBlueCreateHooksCallbackMap s' = blueDocumentToBlueCreateHooksCallbackMap s"
    using getBlueConnector_cache(4) [OF inv2 gb] hit m1 by (simp add: c3 initDefault_fields)
qed









text \<open>A successful call: the connector of the environment is what lines 116 to 122 gave.\<close>

lemma virtualize_Inr_connector:
  assumes "virtualize c g r opts iframe s1 = (Inr env, s')"
  obtains s3 where
    "getBlueConnector g (document r)
       (initDefaultGlobalOwnKeys c (globalObjectShape opts) (contentWindow s1 iframe) s1)
       = (blueConnector env, s3)"
    "blueDocumentToBlueCreateHooksCallbackMap s' = blueDocumentToBlueCreateHooksCallbackMap s3"
    "nextRef s' = nextRef s3 + 1"
proof -
  obtain w where w: "contentWindow s1 iframe = Some w"
    using assms by (cases "contentWindow s1 iframe")
      (auto simp: virtualize_def Let_def split: prod.splits)
  define s2 where "s2 = initDefaultGlobalOwnKeys c (globalObjectShape opts) (Some w) s1"
  obtain k s3 where g: "getBlueConnector g (document r) s2 = (k, s3)"
    by (cases "getBlueConnector g (document r) s2")
  obtain red s4 where rc: "createRedConnector w s3 = (red, s4)"
    by (cases "createRedConnector w s3")
  have res: "lifecycle (keepAliveOf opts) iframe w s4 = (Inr (), s')"
    and env: "blueConnector env = k"
    using assms w g rc
    by (auto simp: virtualize_def Let_def s2_def split: prod.splits sum.splits)
  show ?thesis
    using that [of s3] g env w createRedConnector_fields [OF rc] lifecycle_fields [OF res]
    by (simp add: s2_def)
qed

lemma call_connector_built:
  assumes ok: "createIframeVirtualEnvironment c g options s = (Inr env, s')"
    and res: "getCachedGlobalObjectReferences c g = JObject r"
  shows "map_of (blueDocumentToBlueCreateHooksCallbackMap s) (document (recordFields c r)) = Some k
           \<Longrightarrow> blueConnector env = k
             \<and> blueDocumentToBlueCreateHooksCallbackMap s' = blueDocumentToBlueCreateHooksCallbackMap s"
    and "map_of (blueDocumentToBlueCreateHooksCallbackMap s) (document (recordFields c r)) = None
           \<Longrightarrow> blueDocumentToBlueCreateHooksCallbackMap s'
               = blueDocumentToBlueCreateHooksCallbackMap s
                   @ [(document (recordFields c r), blueConnector env)]
             \<and> nextRef s \<le> blueConnector env \<and> blueConnector env < nextRef s'"
proof -
  let ?doc = "document (recordFields c r)"
  from ok res obtain iframe s1 where
    cdi: "createDetachableIframe ?doc s = (Inr iframe, s1)"
    and vz: "virtualize c g (recordFields c r) (destructure options) iframe s1 = (Inr env, s')"
    by (auto elim!: call_Inr)
  note m1 = createDetachableIframe_module [OF cdi]
  let ?s2 = "initDefaultGlobalOwnKeys c (globalObjectShape (destructure options))
               (contentWindow s1 iframe) s1"
  from vz obtain s3 where
    gb: "getBlueConnector g ?doc ?s2 = (blueConnector env, s3)"
    and c3: "blueDocumentToBlueCreateHooksCallbackMap s' = blueDocumentToBlueCreateHooksCallbackMap s3"
    and n3: "nextRef s' = nextRef s3 + 1"
    by (rule virtualize_Inr_connector)
  have m2: "blueDocumentToBlueCreateHooksCallbackMap ?s2 = blueDocumentToBlueCreateHooksCallbackMap s"
    "nextRef s \<le> nextRef ?s2"
    using m1 by (simp_all add: initDefault_fields)
  show "map_of (blueDocumentToBlueCreateHooksCallbackMap s) ?doc = Some k
           \<Longrightarrow> blueConnector env = k
             \<and> blueDocumentToBlueCreateHooksCallbackMap s' = blueDocumentToBlueCreateHooksCallbackMap s"
    using getBlueConnector_fields(4) [OF gb, of k] m2 c3 by auto
  show "map_of (blueDocumentToBlueCreateHooksCallbackMap s) ?doc = None
           \<Longrightarrow> blueDocumentToBlueCreateHooksCallbackMap s'
               = blueDocumentToBlueCreateHooksCallbackMap s @ [(?doc, blueConnector env)]
             \<and> nextRef s \<le> blueConnector env \<and> blueConnector env < nextRef s'"
    using getBlueConnector_fields(5) [OF gb] m2 c3 n3
      weakMapSet_absent [of "blueDocumentToBlueCreateHooksCallbackMap s" ?doc "blueConnector env"]
    by auto
qed

section \<open>Properties\<close>

subsection \<open>Invalid targets\<close>

text \<open>
  C6. \<^verbatim>\<open>createIframeVirtualEnvironment\<close> throws a \<^verbatim>\<open>TypeError\<close> when \<^verbatim>\<open>globalObject\<close> is not a
  non-null object, and when \<^verbatim>\<open>getCachedGlobalObjectReferences\<close> does not yield a non-null
  object. In both cases the state at the throw is the state the call started in: no
  iframe has been created or attached, and no DOM call has been made.
\<close>

theorem invalid_target_throws_before_iframe:
  "(typeof globalObject \<noteq> ''object'' \<or> globalObject = JNull \<longrightarrow>
      createIframeVirtualEnvironment c globalObject options s
        = (Inl (TypeError ''Missing global object virtualization target.''), s))
   \<and> (\<not> (typeof globalObject \<noteq> ''object'' \<or> globalObject = JNull)
        \<and> (typeof (getCachedGlobalObjectReferences c globalObject) \<noteq> ''object''
             \<or> getCachedGlobalObjectReferences c globalObject = JNull) \<longrightarrow>
      createIframeVirtualEnvironment c globalObject options s
        = (Inl (TypeError ''Invalid virtualization target.''), s))"
  by (simp add: createIframeVirtualEnvironment_def Let_def)

theorem invalid_target_throws_before_iframe_witness:
  "createIframeVirtualEnvironment hostCollaborators (JString ''window'') None hostWorld
     = (Inl (TypeError ''Missing global object virtualization target.''), hostWorld)
   \<and> createIframeVirtualEnvironment hostCollaborators JNull None hostWorld
     = (Inl (TypeError ''Missing global object virtualization target.''), hostWorld)
   \<and> getCachedGlobalObjectReferences hostCollaborators (JObject 9) = JUndefined
   \<and> createIframeVirtualEnvironment hostCollaborators (JObject 9) None hostWorld
     = (Inl (TypeError ''Invalid virtualization target.''), hostWorld)"
  using invalid_target_throws_before_iframe [of "JString ''window''" hostCollaborators None hostWorld]
    invalid_target_throws_before_iframe [of JNull hostCollaborators None hostWorld]
    invalid_target_throws_before_iframe [of "JObject 9" hostCollaborators None hostWorld]
  by (simp add: typeof_def hostCollaborators_def)

subsection \<open>A shape that is not an object\<close>

text \<open>
  C9. When \<^verbatim>\<open>globalObjectShape\<close> is supplied but is not a non-null value of \<^verbatim>\<open>typeof\<close>
  \<^verbatim>\<open>'object'\<close> (a function, a string, \<^verbatim>\<open>null\<close>), the call returns what it returns, and leaves
  the state it leaves, with \<^verbatim>\<open>globalObjectShape\<close> undefined: the shape alone makes no call
  fail. When the call succeeds, the cached default key list is populated and is the key
  list the call passed to \<^verbatim>\<open>lazyRemapProperties\<close>.
\<close>

theorem non_object_shape_as_omitted:
  assumes "typeof shape \<noteq> ''object'' \<or> shape = JNull"
  shows "createIframeVirtualEnvironment c globalObject (Some (opts\<lparr>globalObjectShape := shape\<rparr>)) s
       = createIframeVirtualEnvironment c globalObject
           (Some (opts\<lparr>globalObjectShape := JUndefined\<rparr>)) s
     \<and> (\<forall>env s'. createIframeVirtualEnvironment c globalObject
                     (Some (opts\<lparr>globalObjectShape := shape\<rparr>)) s = (Inr env, s') \<longrightarrow>
            defaultGlobalOwnKeys s' = Some (lazyRemapOwnKeys env))"
proof -
  have a: "shouldUseDefaultGlobalOwnKeys shape" "shouldUseDefaultGlobalOwnKeys JUndefined"
    using assms by (simp_all add: shouldUseDefaultGlobalOwnKeys_def typeof_def)
  have b: "initDefaultGlobalOwnKeys c shape = initDefaultGlobalOwnKeys c JUndefined"
    using a by (simp add: initDefaultGlobalOwnKeys_def fun_eq_iff)
  have d: "globalOwnKeys c shape = globalOwnKeys c JUndefined"
    using a by (simp add: globalOwnKeys_def fun_eq_iff)
  have e: "configure c globalObject r (opts\<lparr>globalObjectShape := shape\<rparr>)
         = configure c globalObject r (opts\<lparr>globalObjectShape := JUndefined\<rparr>)" for r
    by (simp add: configure_def keepAliveOf_def fun_eq_iff)
  have f: "virtualize c globalObject r (opts\<lparr>globalObjectShape := shape\<rparr>)
         = virtualize c globalObject r (opts\<lparr>globalObjectShape := JUndefined\<rparr>)" for r
    by (simp add: virtualize_def b d e keepAliveOf_def fun_eq_iff Let_def
          split: prod.splits option.splits)
  have same: "createIframeVirtualEnvironment c globalObject
                (Some (opts\<lparr>globalObjectShape := shape\<rparr>)) s
              = createIframeVirtualEnvironment c globalObject
                  (Some (opts\<lparr>globalObjectShape := JUndefined\<rparr>)) s"
    by (simp add: createIframeVirtualEnvironment_def destructure_def f Let_def
          split: jsval.splits prod.splits sum.splits)
  have "defaultGlobalOwnKeys s' = Some (lazyRemapOwnKeys env)"
    if "createIframeVirtualEnvironment c globalObject
          (Some (opts\<lparr>globalObjectShape := shape\<rparr>)) s = (Inr env, s')" for env s'
    using call_default_used [OF that] a(1) by (simp add: destructure_def)
  then show ?thesis using same by blast
qed

theorem non_object_shape_as_omitted_witness:
  "typeof (JFunction 8) \<noteq> ''object''
   \<and> createIframeVirtualEnvironment hostCollaborators (JObject 3)
       (Some (noOptions\<lparr>globalObjectShape := JFunction 8\<rparr>)) hostWorld
     = createIframeVirtualEnvironment hostCollaborators (JObject 3)
         (Some (noOptions\<lparr>globalObjectShape := JUndefined\<rparr>)) hostWorld
   \<and> createIframeVirtualEnvironment hostCollaborators (JObject 3)
       (Some (noOptions\<lparr>globalObjectShape := JNull\<rparr>)) hostWorld
     = createIframeVirtualEnvironment hostCollaborators (JObject 3)
         (Some (noOptions\<lparr>globalObjectShape := JUndefined\<rparr>)) hostWorld
   \<and> (\<exists>env s'. createIframeVirtualEnvironment hostCollaborators (JObject 3)
                  (Some (noOptions\<lparr>globalObjectShape := JFunction 8\<rparr>)) hostWorld = (Inr env, s')
        \<and> lazyRemapOwnKeys env = [KeyString ''window'', KeyString ''fetch'']
        \<and> defaultGlobalOwnKeys s' = Some [KeyString ''window'', KeyString ''fetch''])"
proof -
  let ?call = "createIframeVirtualEnvironment hostCollaborators (JObject 3)
                 (Some (noOptions\<lparr>globalObjectShape := JFunction 8\<rparr>)) hostWorld"
  have t: "typeof (JFunction 8) \<noteq> ''object'' \<or> JFunction 8 = JNull"
    "typeof JNull \<noteq> ''object'' \<or> JNull = JNull"
    by (simp_all add: typeof_def)
  have "\<exists>env. fst ?call = Inr env
          \<and> lazyRemapOwnKeys env = [KeyString ''window'', KeyString ''fetch'']"
    by (simp add: model_defs Let_def)
  then obtain env s' where c: "?call = (Inr env, s')"
    and k: "lazyRemapOwnKeys env = [KeyString ''window'', KeyString ''fetch'']"
    by (cases ?call) auto
  have d: "defaultGlobalOwnKeys s' = Some [KeyString ''window'', KeyString ''fetch'']"
    using non_object_shape_as_omitted [OF t(1), of hostCollaborators "JObject 3" noOptions hostWorld]
      c k by auto
  have e1: "?call = createIframeVirtualEnvironment hostCollaborators (JObject 3)
                      (Some (noOptions\<lparr>globalObjectShape := JUndefined\<rparr>)) hostWorld"
    using non_object_shape_as_omitted [OF t(1), of hostCollaborators "JObject 3" noOptions hostWorld]
    by blast
  have e2: "createIframeVirtualEnvironment hostCollaborators (JObject 3)
              (Some (noOptions\<lparr>globalObjectShape := JNull\<rparr>)) hostWorld
            = createIframeVirtualEnvironment hostCollaborators (JObject 3)
                (Some (noOptions\<lparr>globalObjectShape := JUndefined\<rparr>)) hostWorld"
    using non_object_shape_as_omitted [OF t(2), of hostCollaborators "JObject 3" noOptions hostWorld]
    by blast
  have "\<exists>env s'. ?call = (Inr env, s')
        \<and> lazyRemapOwnKeys env = [KeyString ''window'', KeyString ''fetch'']
        \<and> defaultGlobalOwnKeys s' = Some [KeyString ''window'', KeyString ''fetch'']"
    using c k d by blast
  then show ?thesis
    using e1 e2 by (intro conjI) (simp_all add: typeof_def)
qed

subsection \<open>Where the iframe is attached\<close>

text \<open>
  C7, as the code has it. \<^verbatim>\<open>createDetachableIframe\<close> attaches the hidden, sandboxed iframe
  as the last child of the document's \<^verbatim>\<open>body\<close>; when the document has no \<^verbatim>\<open>body\<close>, as the last
  child of the document's last child node (not of the document itself). With a \<^verbatim>\<open>body\<close>,
  in a document whose \<^verbatim>\<open>createElement\<close> gives HTML elements, the call succeeds.
\<close>

theorem iframe_appended_to_body_or_last_child:
  assumes fresh: "nextRefUnused s"
  shows "(\<forall>iframe s'. createDetachableIframe doc s = (Inr iframe, s') \<longrightarrow>
            (\<exists>p. (case DocumentProtoBodyGetter s doc of
                      Some b \<Rightarrow> p = b
                    | None \<Rightarrow> NodeProtoLastChildGetter s doc = Some p)
                 \<and> parentNode s' iframe = Some p
                 \<and> childNodes s' p = childNodes s p @ [iframe]
                 \<and> NodeProtoLastChildGetter s' p = Some iframe
                 \<and> sandboxedHidden s' iframe))
       \<and> (nodeKind s doc = Some DocumentNode \<and> createsHTMLElements s doc
            \<and> DocumentProtoBodyGetter s doc \<noteq> None \<longrightarrow>
            fst (createDetachableIframe doc s) = Inr (nextRef s))"
proof (intro conjI allI impI)
  fix iframe s'
  assume ok: "createDetachableIframe doc s = (Inr iframe, s')"
  from ok fresh obtain p where
    p: "iframeParent s doc = Some p" and pn: "p \<noteq> iframe"
    and ch: "childNodes s' = (childNodes s)(iframe := [], p := childNodes s p @ [iframe])"
    and pa: "parentNode s' = (parentNode s)(iframe := Some p)"
    and sb: "attributes s' iframe ''sandbox'' = Some IFRAME_SANDBOX_ATTRIBUTE_VALUE"
    and st: "style s' iframe ''display'' = Some ''none''"
    by (rule createDetachableIframe_Inr)
  have "case DocumentProtoBodyGetter s doc of
          Some b \<Rightarrow> p = b
        | None \<Rightarrow> NodeProtoLastChildGetter s doc = Some p"
    using p by (simp add: iframeParent_def split: option.splits)
  moreover have "NodeProtoLastChildGetter s' p = Some iframe"
    by (cases "childNodes s p") (simp_all add: NodeProtoLastChildGetter_def ch)
  ultimately show "\<exists>p. (case DocumentProtoBodyGetter s doc of
                      Some b \<Rightarrow> p = b
                    | None \<Rightarrow> NodeProtoLastChildGetter s doc = Some p)
                 \<and> parentNode s' iframe = Some p
                 \<and> childNodes s' p = childNodes s p @ [iframe]
                 \<and> NodeProtoLastChildGetter s' p = Some iframe
                 \<and> sandboxedHidden s' iframe"
    using sb st by (intro exI [of _ p]) (simp add: ch pa sandboxedHidden_def)
next
  assume a: "nodeKind s doc = Some DocumentNode \<and> createsHTMLElements s doc
               \<and> DocumentProtoBodyGetter s doc \<noteq> None"
  then obtain b where b: "DocumentProtoBodyGetter s doc = Some b" by auto
  obtain r s1 where c: "DocumentProtoCreateElement doc ''iframe'' s = (r, s1)"
    by (cases "DocumentProtoCreateElement doc ''iframe'' s")
  have r: "r = Inr (nextRef s)"
    using c a by (auto simp: DocumentProtoCreateElement_def Let_def)
  note f = create_fields [OF c [unfolded r]]
  have par: "iframeParent s1 doc = Some b"
    using iframeParent_after_create [OF fresh f(2) c] b by (simp add: iframeParent_def)
  have bn: "b \<noteq> nextRef s"
    using iframeParent_not_fresh [OF fresh, of doc b] b by (simp add: iframeParent_def)
  have "hasTag s [''body'', ''frameset''] b" using body_is_child [OF b] by blast
  then obtain tag where tag: "nodeKind s b = Some (ElementNode tag)"
    by (auto simp: hasTag_def split: option.splits NodeKind.splits)
  define s3 where "s3 = ElementProtoSetAttribute (nextRef s) ''sandbox''
                          IFRAME_SANDBOX_ATTRIBUTE_VALUE (setStyle (nextRef s) ''display'' ''none'' s1)"
  have "nodeKind s3 b = Some (ElementNode tag)"
    using bn tag by (simp add: s3_def ElementProtoSetAttribute_def setStyle_def f(3))
  then have "acceptsElementChild s3 b"
    by (simp add: acceptsElementChild_def)
  then have app: "fst (NodeProtoAppendChild (Some b) (nextRef s) s3) = Inr ()"
    by (simp add: NodeProtoAppendChild_def Let_def)
  have "createDetachableIframe doc s =
          (case NodeProtoAppendChild (Some b) (nextRef s) s3 of
             (Inl e, s4) \<Rightarrow> (Inl e, s4)
           | (Inr _, s4) \<Rightarrow> (Inr (nextRef s), s4))"
    using a by (simp add: createDetachableIframe_def Let_def c r par s3_def
                  HTMLElementProtoStyleGetter_def f(16))
  then show "fst (createDetachableIframe doc s) = Inr (nextRef s)"
    using app by (cases "NodeProtoAppendChild (Some b) (nextRef s) s3") simp
qed

theorem iframe_appended_to_body_or_last_child_witness:
  "nextRefUnused hostWorld
   \<and> DocumentProtoBodyGetter hostWorld 0 = Some 2
   \<and> fst (createDetachableIframe 0 hostWorld) = Inr 20
   \<and> childNodes (snd (createDetachableIframe 0 hostWorld)) 2 = [20]
   \<and> sandboxedHidden (snd (createDetachableIframe 0 hostWorld)) 20
   \<and> nextRefUnused bodilessWorld
   \<and> DocumentProtoBodyGetter bodilessWorld 0 = None
   \<and> NodeProtoLastChildGetter bodilessWorld 0 = Some 1
   \<and> fst (createDetachableIframe 0 bodilessWorld) = Inr 20
   \<and> childNodes (snd (createDetachableIframe 0 bodilessWorld)) 1 = [20]
   \<and> createsHTMLElements hostWorld 0
   \<and> \<not> createsHTMLElements xmlWorld 0
   \<and> DocumentProtoBodyGetter xmlWorld 0 = Some 2
   \<and> fst (createDetachableIframe 0 xmlWorld) = Inl (TypeError ''Illegal invocation'')
   \<and> childNodes (snd (createDetachableIframe 0 xmlWorld)) 2 = []"
proof -
  have h: "nextRefUnused hostWorld" "nextRefUnused bodilessWorld"
    by (simp_all add: nextRefUnused_def hostWorld_def bodilessWorld_def)
  have b: "DocumentProtoBodyGetter hostWorld 0 = Some 2"
    "DocumentProtoBodyGetter bodilessWorld 0 = None"
    "NodeProtoLastChildGetter bodilessWorld 0 = Some 1"
    "childNodes hostWorld 2 = []" "childNodes bodilessWorld 1 = []"
    "nodeKind hostWorld 0 = Some DocumentNode" "nextRef hostWorld = 20"
    "createsHTMLElements hostWorld 0"
    by (simp_all add: model_defs)
  have e: "fst (createDetachableIframe 0 bodilessWorld) = Inr 20"
    by (simp add: model_defs Let_def)
  have x: "\<not> createsHTMLElements xmlWorld 0"
    "DocumentProtoBodyGetter xmlWorld 0 = Some 2"
    "fst (createDetachableIframe 0 xmlWorld) = Inl (TypeError ''Illegal invocation'')"
    "childNodes (snd (createDetachableIframe 0 xmlWorld)) 2 = []"
    by (simp_all add: model_defs Let_def)
  have e1: "fst (createDetachableIframe 0 hostWorld) = Inr 20"
    using iframe_appended_to_body_or_last_child [OF h(1), of 0] b by simp
  have "childNodes (snd (createDetachableIframe 0 hostWorld)) 2 = [20]
        \<and> sandboxedHidden (snd (createDetachableIframe 0 hostWorld)) 20"
    using iframe_appended_to_body_or_last_child [OF h(1), of 0] e1 b
    by (cases "createDetachableIframe 0 hostWorld") auto
  moreover have "childNodes (snd (createDetachableIframe 0 bodilessWorld)) 1 = [20]"
    using iframe_appended_to_body_or_last_child [OF h(2), of 0] e b
    by (cases "createDetachableIframe 0 bodilessWorld") auto
  ultimately show ?thesis using h b e e1 x by simp
qed

text \<open>
  C7 as stated fails: in a document with no \<^verbatim>\<open>body\<close> whose only child is the \<^verbatim>\<open>html\<close> element
  (1), the iframe (20) becomes a child of that element; the children of the document (0)
  are what they were, so the iframe is not the last child of the document itself.
\<close>

theorem iframe_not_child_of_document_counterexample:
  "DocumentProtoBodyGetter bodilessWorld 0 = None
   \<and> fst (createDetachableIframe 0 bodilessWorld) = Inr 20
   \<and> childNodes (snd (createDetachableIframe 0 bodilessWorld)) 0 = [1]
   \<and> NodeProtoLastChildGetter (snd (createDetachableIframe 0 bodilessWorld)) 0 \<noteq> Some 20
   \<and> parentNode (snd (createDetachableIframe 0 bodilessWorld)) 20 = Some 1"
  by (simp add: model_defs Let_def)

subsection \<open>Sandbox and style before the append\<close>

text \<open>
  C10. In \<^verbatim>\<open>createDetachableIframe\<close> the style \<^verbatim>\<open>display: none\<close> and the sandbox attribute
  \<^verbatim>\<open>'allow-same-origin allow-scripts'\<close> are set before \<^verbatim>\<open>appendChild\<close>: in every state the
  function goes through, an attached iframe is sandboxed and hidden; the last of these
  states is the one the function leaves; and a successful call leaves the iframe attached,
  sandboxed and hidden, having made its four DOM calls in the order of the source.
\<close>

theorem sandbox_and_style_before_append:
  assumes fresh: "nextRefUnused s"
  shows "(\<forall>t \<in> set (createDetachableIframeStates doc s).
            attached t (nextRef s) \<longrightarrow> sandboxedHidden t (nextRef s))
       \<and> snd (createDetachableIframe doc s) = last (createDetachableIframeStates doc s)
       \<and> (\<forall>iframe s'. createDetachableIframe doc s = (Inr iframe, s') \<longrightarrow>
            iframe = nextRef s \<and> attached s' iframe \<and> sandboxedHidden s' iframe
            \<and> (\<exists>p. events s' = events s @
                  [CreateElement doc ''iframe'' iframe, SetStyle iframe ''display'' ''none'',
                   SetAttribute iframe ''sandbox'' IFRAME_SANDBOX_ATTRIBUTE_VALUE,
                   AppendChild p iframe]))"
proof (intro conjI allI impI)
  show "\<forall>t \<in> set (createDetachableIframeStates doc s).
          attached t (nextRef s) \<longrightarrow> sandboxedHidden t (nextRef s)"
    by (rule iframe_states_guarded [OF fresh])
  show "snd (createDetachableIframe doc s) = last (createDetachableIframeStates doc s)"
    by (rule iframe_states_last)
next
  fix iframe s'
  assume ok: "createDetachableIframe doc s = (Inr iframe, s')"
  from ok fresh obtain p where
    i: "iframe = nextRef s"
    and pa: "parentNode s' = (parentNode s)(iframe := Some p)"
    and sb: "attributes s' iframe ''sandbox'' = Some IFRAME_SANDBOX_ATTRIBUTE_VALUE"
    and st: "style s' iframe ''display'' = Some ''none''"
    and ev: "events s' = events s @ [CreateElement doc ''iframe'' iframe,
        SetStyle iframe ''display'' ''none'',
        SetAttribute iframe ''sandbox'' IFRAME_SANDBOX_ATTRIBUTE_VALUE, AppendChild p iframe]"
    by (rule createDetachableIframe_Inr)
  show "iframe = nextRef s" by (rule i)
  show "attached s' iframe" by (simp add: attached_def pa)
  show "sandboxedHidden s' iframe" using sb st by (simp add: sandboxedHidden_def)
  show "\<exists>p. events s' = events s @
                  [CreateElement doc ''iframe'' iframe, SetStyle iframe ''display'' ''none'',
                   SetAttribute iframe ''sandbox'' IFRAME_SANDBOX_ATTRIBUTE_VALUE,
                   AppendChild p iframe]"
    using ev by blast
qed

theorem sandbox_and_style_before_append_witness:
  "nextRefUnused hostWorld
   \<and> fst (createDetachableIframe 0 hostWorld) = Inr 20
   \<and> attached (snd (createDetachableIframe 0 hostWorld)) 20
   \<and> sandboxedHidden (snd (createDetachableIframe 0 hostWorld)) 20
   \<and> length (createDetachableIframeStates 0 hostWorld) = 4
   \<and> sandboxedHidden (last (createDetachableIframeStates 0 hostWorld)) 20"
proof -
  have h: "nextRefUnused hostWorld"
    by (simp add: nextRefUnused_def hostWorld_def)
  have e: "fst (createDetachableIframe 0 hostWorld) = Inr 20"
    "length (createDetachableIframeStates 0 hostWorld) = 4"
    by (simp_all add: model_defs Let_def)
  have l: "last (createDetachableIframeStates 0 hostWorld) = snd (createDetachableIframe 0 hostWorld)"
    using sandbox_and_style_before_append [OF h, of 0] by simp
  have "attached (snd (createDetachableIframe 0 hostWorld)) 20
        \<and> sandboxedHidden (snd (createDetachableIframe 0 hostWorld)) 20"
    using sandbox_and_style_before_append [OF h, of 0] e
    by (cases "createDetachableIframe 0 hostWorld") auto
  then show ?thesis using h e by (simp add: l)
qed

subsection \<open>Detach or preserve\<close>

text \<open>
  C2. A successful call ends in exactly one of two ways. With \<^verbatim>\<open>keepAlive\<close> false or
  omitted the iframe has been removed: it has no parent and is no node's child, and the
  DOM calls of the call are the four of \<^verbatim>\<open>createDetachableIframe\<close> followed by one
  \<^verbatim>\<open>remove\<close>. With \<^verbatim>\<open>keepAlive\<close> true the iframe is still the last child of the node it was
  appended to, and the DOM calls are those four followed by one \<^verbatim>\<open>open\<close> and then one
  \<^verbatim>\<open>close\<close> of the content document of the iframe's window, and no \<^verbatim>\<open>remove\<close>.
\<close>

theorem detach_or_preserve:
  assumes ok: "createIframeVirtualEnvironment c g options s = (Inr env, s')"
    and fresh: "nextRefUnused s"
    and res: "getCachedGlobalObjectReferences c g = JObject r"
  shows "\<exists>p. iframeParent s (document (recordFields c r)) = Some p \<and>
     (if keepAliveOf (destructure options)
      then parentNode s' (nextRef s) = Some p
         \<and> childNodes s' p = childNodes s p @ [nextRef s]
         \<and> (\<exists>w d. contentWindow s' (nextRef s) = Some w \<and> windowDocument s' w = Some d
               \<and> events s' = events s @
                    [CreateElement (document (recordFields c r)) ''iframe'' (nextRef s),
                     SetStyle (nextRef s) ''display'' ''none'',
                     SetAttribute (nextRef s) ''sandbox'' IFRAME_SANDBOX_ATTRIBUTE_VALUE,
                     AppendChild p (nextRef s), DocumentOpen d, DocumentClose d])
      else \<not> attached s' (nextRef s)
         \<and> events s' = events s @
              [CreateElement (document (recordFields c r)) ''iframe'' (nextRef s),
               SetStyle (nextRef s) ''display'' ''none'',
               SetAttribute (nextRef s) ''sandbox'' IFRAME_SANDBOX_ATTRIBUTE_VALUE,
               AppendChild p (nextRef s), Remove (nextRef s)])"
proof -
  let ?doc = "document (recordFields c r)"
  let ?n = "nextRef s"
  from ok res obtain iframe s1 where
    cdi: "createDetachableIframe ?doc s = (Inr iframe, s1)"
    and vz: "virtualize c g (recordFields c r) (destructure options) iframe s1 = (Inr env, s')"
    by (auto elim!: call_Inr)
  from cdi fresh obtain p where
    i: "iframe = ?n" and p: "iframeParent s ?doc = Some p" and pn: "p \<noteq> iframe"
    and ch: "childNodes s1 = (childNodes s)(iframe := [], p := childNodes s p @ [iframe])"
    and pa: "parentNode s1 = (parentNode s)(iframe := Some p)"
    and ev: "events s1 = events s @ [CreateElement ?doc ''iframe'' iframe,
        SetStyle iframe ''display'' ''none'',
        SetAttribute iframe ''sandbox'' IFRAME_SANDBOX_ATTRIBUTE_VALUE, AppendChild p iframe]"
    by (rule createDetachableIframe_Inr)
  from vz obtain w s4 where
    w: "contentWindow s1 iframe = Some w" and same: "sameNodes s1 s4"
    and lc: "lifecycle (keepAliveOf (destructure options)) iframe w s4 = (Inr (), s')"
    by (rule virtualize_Inr)
  have s4: "childNodes s4 = childNodes s1" "parentNode s4 = parentNode s1"
    "events s4 = events s1" "contentWindow s4 = contentWindow s1"
    "windowDocument s4 = windowDocument s1"
    using same by (simp_all add: sameNodes_def)
  have nochild: "\<And>q. ?n \<notin> set (childNodes s q)"
    using fresh by (simp add: nextRefUnused_def)
  show ?thesis
  proof (cases "keepAliveOf (destructure options)")
    case True
    then obtain d where d: "windowDocument s4 w = Some d"
      and s': "s' = DocumentProtoClose d (DocumentProtoOpen d s4)"
      using lc by (auto simp: lifecycle_def split: option.splits)
    have "parentNode s' ?n = Some p" "childNodes s' p = childNodes s p @ [?n]"
      "contentWindow s' ?n = Some w" "windowDocument s' w = Some d"
      "events s' = events s @ [CreateElement ?doc ''iframe'' ?n, SetStyle ?n ''display'' ''none'',
         SetAttribute ?n ''sandbox'' IFRAME_SANDBOX_ATTRIBUTE_VALUE, AppendChild p ?n,
         DocumentOpen d, DocumentClose d]"
      using pn w d
      by (simp_all add: s' DocumentProtoClose_def DocumentProtoOpen_def s4 ch pa ev i [symmetric])
    then show ?thesis using True p by auto
  next
    case False
    then have s': "s' = ElementProtoRemove iframe s4"
      using lc by (auto simp: lifecycle_def)
    have c': "childNodes s' = (childNodes s)(iframe := [])"
      using pn nochild [of p]
      by (auto simp: s' ElementProtoRemove_def detach_def s4 ch pa i fun_eq_iff remove1_append)
    have p': "parentNode s' iframe = None"
      by (simp add: s' ElementProtoRemove_def detach_def s4 ch pa)
    have "\<not> attached s' ?n"
      using nochild p' by (simp add: attached_def c' i)
    moreover have "events s' = events s @ [CreateElement ?doc ''iframe'' ?n,
         SetStyle ?n ''display'' ''none'',
         SetAttribute ?n ''sandbox'' IFRAME_SANDBOX_ATTRIBUTE_VALUE, AppendChild p ?n, Remove ?n]"
      by (simp add: s' ElementProtoRemove_def detach_def s4 pa ev i)
    ultimately show ?thesis using False p by auto
  qed
qed

theorem detach_or_preserve_witness:
  "nextRefUnused hostWorld
   \<and> getCachedGlobalObjectReferences hostCollaborators (JObject 3) = JObject 4
   \<and> keepAliveOf (destructure (Some keepAliveOptions))
   \<and> \<not> keepAliveOf (destructure None)
   \<and> events (snd (createIframeVirtualEnvironment hostCollaborators (JObject 3) None hostWorld))
       = [CreateElement 0 ''iframe'' 20, SetStyle 20 ''display'' ''none'',
          SetAttribute 20 ''sandbox'' ''allow-same-origin allow-scripts'',
          AppendChild 2 20, Remove 20]
   \<and> \<not> attached (snd (createIframeVirtualEnvironment hostCollaborators (JObject 3) None hostWorld)) 20
   \<and> events (snd (createIframeVirtualEnvironment hostCollaborators (JObject 3)
                    (Some keepAliveOptions) hostWorld))
       = [CreateElement 0 ''iframe'' 20, SetStyle 20 ''display'' ''none'',
          SetAttribute 20 ''sandbox'' ''allow-same-origin allow-scripts'',
          AppendChild 2 20, DocumentOpen 22, DocumentClose 22]
   \<and> parentNode (snd (createIframeVirtualEnvironment hostCollaborators (JObject 3)
                    (Some keepAliveOptions) hostWorld)) 20 = Some 2"
proof -
  have h: "nextRefUnused hostWorld"
    by (simp add: nextRefUnused_def hostWorld_def)
  have r: "getCachedGlobalObjectReferences hostCollaborators (JObject 3) = JObject 4"
    by (simp add: hostCollaborators_def)
  have k: "keepAliveOf (destructure (Some keepAliveOptions))" "\<not> keepAliveOf (destructure None)"
    by (simp_all add: model_defs)
  obtain env1 s1 where c1:
    "createIframeVirtualEnvironment hostCollaborators (JObject 3) None hostWorld = (Inr env1, s1)"
    by (cases "createIframeVirtualEnvironment hostCollaborators (JObject 3) None hostWorld")
      (simp add: model_defs Let_def)
  obtain env2 s2 where c2:
    "createIframeVirtualEnvironment hostCollaborators (JObject 3) (Some keepAliveOptions) hostWorld
       = (Inr env2, s2)"
    by (cases "createIframeVirtualEnvironment hostCollaborators (JObject 3)
                 (Some keepAliveOptions) hostWorld")
      (simp add: model_defs Let_def)
  have p: "iframeParent hostWorld (document (recordFields hostCollaborators 4)) = Some 2"
    "document (recordFields hostCollaborators 4) = 0" "nextRef hostWorld = 20"
    "events hostWorld = []"
    by (simp_all add: model_defs)
  have a: "\<not> attached s1 20" using detach_or_preserve [OF c1 h r] k p by auto
  have b: "parentNode s2 20 = Some 2" using detach_or_preserve [OF c2 h r] k p by auto
  have e1: "events (snd (createIframeVirtualEnvironment hostCollaborators (JObject 3) None hostWorld))
       = [CreateElement 0 ''iframe'' 20, SetStyle 20 ''display'' ''none'',
          SetAttribute 20 ''sandbox'' ''allow-same-origin allow-scripts'',
          AppendChild 2 20, Remove 20]"
    by (simp add: model_defs Let_def)
  have e2: "events (snd (createIframeVirtualEnvironment hostCollaborators (JObject 3)
                    (Some keepAliveOptions) hostWorld))
       = [CreateElement 0 ''iframe'' 20, SetStyle 20 ''display'' ''none'',
          SetAttribute 20 ''sandbox'' ''allow-same-origin allow-scripts'',
          AppendChild 2 20, DocumentOpen 22, DocumentClose 22]"
    by (simp add: model_defs Let_def)
  show ?thesis using h r k a b e1 e2 c1 c2 by simp
qed

subsection \<open>The default key list\<close>

text \<open>
  C4. \<^verbatim>\<open>defaultGlobalOwnKeys\<close> is assigned at most once: once it holds a key list, no
  sequence of calls (successful or failing, with or without a shape) changes it, and a
  call with a shape that is a non-null object never touches it. Once it holds a list,
  every later successful call with no valid shape passes that list to
  \<^verbatim>\<open>lazyRemapProperties\<close>. After a successful call with no valid shape it holds the list
  that call passed, and every later successful call with no valid shape passes that same
  list.
\<close>

theorem default_keys_assigned_once:
  "(defaultGlobalOwnKeys s = Some ks \<longrightarrow> defaultGlobalOwnKeys (snd (run c ins s)) = Some ks)
   \<and> (\<not> shouldUseDefaultGlobalOwnKeys (globalObjectShape (destructure options)) \<longrightarrow>
        defaultGlobalOwnKeys (snd (createIframeVirtualEnvironment c g options s))
          = defaultGlobalOwnKeys s)
   \<and> (defaultGlobalOwnKeys s = Some ks
        \<and> createIframeVirtualEnvironment c g options (snd (run c ins s)) = (Inr env, s')
        \<and> shouldUseDefaultGlobalOwnKeys (globalObjectShape (destructure options)) \<longrightarrow>
          lazyRemapOwnKeys env = ks)
   \<and> (createIframeVirtualEnvironment c g1 options1 s = (Inr env1, s1)
        \<and> shouldUseDefaultGlobalOwnKeys (globalObjectShape (destructure options1))
        \<and> createIframeVirtualEnvironment c g2 options2 (snd (run c ins s1)) = (Inr env2, s2)
        \<and> shouldUseDefaultGlobalOwnKeys (globalObjectShape (destructure options2)) \<longrightarrow>
          defaultGlobalOwnKeys s1 = Some (lazyRemapOwnKeys env1)
        \<and> defaultGlobalOwnKeys s2 = Some (lazyRemapOwnKeys env1)
        \<and> lazyRemapOwnKeys env2 = lazyRemapOwnKeys env1)"
proof (intro conjI impI)
  show "defaultGlobalOwnKeys s = Some ks \<Longrightarrow> defaultGlobalOwnKeys (snd (run c ins s)) = Some ks"
    by (rule run_default)
  show "\<not> shouldUseDefaultGlobalOwnKeys (globalObjectShape (destructure options)) \<Longrightarrow>
        defaultGlobalOwnKeys (snd (createIframeVirtualEnvironment c g options s))
          = defaultGlobalOwnKeys s"
    using call_default(2) [of c g options s] by (cases "createIframeVirtualEnvironment c g options s") simp
next
  assume a: "defaultGlobalOwnKeys s = Some ks
        \<and> createIframeVirtualEnvironment c g options (snd (run c ins s)) = (Inr env, s')
        \<and> shouldUseDefaultGlobalOwnKeys (globalObjectShape (destructure options))"
  then have "defaultGlobalOwnKeys (snd (run c ins s)) = Some ks" by (simp add: run_default)
  then have "defaultGlobalOwnKeys s' = Some ks" using a call_default(1) by blast
  moreover have "defaultGlobalOwnKeys s' = Some (lazyRemapOwnKeys env)"
    using a call_default_used by blast
  ultimately show "lazyRemapOwnKeys env = ks" by simp
next
  assume a: "createIframeVirtualEnvironment c g1 options1 s = (Inr env1, s1)
        \<and> shouldUseDefaultGlobalOwnKeys (globalObjectShape (destructure options1))
        \<and> createIframeVirtualEnvironment c g2 options2 (snd (run c ins s1)) = (Inr env2, s2)
        \<and> shouldUseDefaultGlobalOwnKeys (globalObjectShape (destructure options2))"
  have d1: "defaultGlobalOwnKeys s1 = Some (lazyRemapOwnKeys env1)"
    using a call_default_used by blast
  then have "defaultGlobalOwnKeys (snd (run c ins s1)) = Some (lazyRemapOwnKeys env1)"
    by (rule run_default)
  then have d2: "defaultGlobalOwnKeys s2 = Some (lazyRemapOwnKeys env1)"
    using a call_default(1) by blast
  moreover have "defaultGlobalOwnKeys s2 = Some (lazyRemapOwnKeys env2)"
    using a call_default_used by blast
  ultimately have "lazyRemapOwnKeys env2 = lazyRemapOwnKeys env1" by simp
  then show "defaultGlobalOwnKeys s1 = Some (lazyRemapOwnKeys env1)"
    "defaultGlobalOwnKeys s2 = Some (lazyRemapOwnKeys env1)"
    "lazyRemapOwnKeys env2 = lazyRemapOwnKeys env1"
    using d1 d2 by simp_all
qed


theorem default_keys_assigned_once_witness:
  "shouldUseDefaultGlobalOwnKeys (globalObjectShape (destructure None))
   \<and> \<not> shouldUseDefaultGlobalOwnKeys (globalObjectShape (destructure (Some shapeOptions)))
   \<and> defaultGlobalOwnKeys hostWorld = None
   \<and> defaultGlobalOwnKeys
        (snd (createIframeVirtualEnvironment hostCollaborators (JObject 3) None hostWorld))
       = Some [KeyString ''window'', KeyString ''fetch'']
   \<and> (\<exists>env2 s2.
         createIframeVirtualEnvironment hostCollaborators (JObject 13) (Some keepAliveOptions)
           (snd (run hostCollaborators [(JObject 3, Some shapeOptions)]
                   (snd (createIframeVirtualEnvironment hostCollaborators (JObject 3) None
                           hostWorld))))
           = (Inr env2, s2)
         \<and> lazyRemapOwnKeys env2 = [KeyString ''window'', KeyString ''fetch'']
         \<and> defaultGlobalOwnKeys s2 = Some [KeyString ''window'', KeyString ''fetch''])"
proof -
  let ?call1 = "createIframeVirtualEnvironment hostCollaborators (JObject 3) None hostWorld"
  let ?mid = "snd (run hostCollaborators [(JObject 3, Some shapeOptions)] (snd ?call1))"
  let ?call2 = "createIframeVirtualEnvironment hostCollaborators (JObject 13)
                  (Some keepAliveOptions) ?mid"
  have sh: "shouldUseDefaultGlobalOwnKeys (globalObjectShape (destructure None))"
    "shouldUseDefaultGlobalOwnKeys (globalObjectShape (destructure (Some keepAliveOptions)))"
    "\<not> shouldUseDefaultGlobalOwnKeys (globalObjectShape (destructure (Some shapeOptions)))"
    "defaultGlobalOwnKeys hostWorld = None"
    by (simp_all add: model_defs)
  have f1: "fst ?call1 =
      Inr \<lparr>blueConnector = 23, redConnector = 24, envDistortionCallback = JUndefined,
           envInstrumentation = JUndefined,
           calls = [LinkIntrinsics (JObject 3), Link [''document''],
                    Link [''__proto__'', ''__proto__'', ''__proto__''], RemapProto 0 5,
                    LazyRemapProperties 3 [KeyString ''window'', KeyString ''fetch'']
                      (Some [KeyString ''window'']),
                    LazyRemapProperties 6 [KeyString ''addEventListener''] None]\<rparr>"
    by (simp add: model_defs Let_def)
  then obtain env1 s1 where c1: "?call1 = (Inr env1, s1)"
    and k1: "lazyRemapOwnKeys env1 = [KeyString ''window'', KeyString ''fetch'']"
    by (cases ?call1) (simp add: lazyRemapOwnKeys_def)
  have "\<exists>env2. fst ?call2 = Inr env2"
    by (simp add: model_defs Let_def)
  then obtain env2 s2 where c2: "?call2 = (Inr env2, s2)"
    by (cases ?call2) auto
  have c2': "createIframeVirtualEnvironment hostCollaborators (JObject 13) (Some keepAliveOptions)
               (snd (run hostCollaborators [(JObject 3, Some shapeOptions)] s1)) = (Inr env2, s2)"
    using c2 c1 by simp
  have "defaultGlobalOwnKeys s1 = Some (lazyRemapOwnKeys env1)
        \<and> defaultGlobalOwnKeys s2 = Some (lazyRemapOwnKeys env1)
        \<and> lazyRemapOwnKeys env2 = lazyRemapOwnKeys env1"
    using default_keys_assigned_once
      [of hostWorld "[]" hostCollaborators "[(JObject 3, Some shapeOptions)]" None "JObject 3"
         env1 s1 "JObject 3" None env1 s1 "JObject 13" "Some keepAliveOptions" env2 s2]
      c1 c2' sh by blast
  then show ?thesis using sh c1 c2 k1 by simp
qed

text \<open>
  C8, as the code has it. On the successful call that populates it, the cached default
  key list is \<^verbatim>\<open>filterWindowKeys(getFilteredGlobalOwnKeys(redWindow))\<close>, \<^verbatim>\<open>redWindow\<close> being the
  content window of the iframe that call created (a reference allocated during the call),
  not the host global object passed to the call.
\<close>

theorem default_keys_from_sandbox_window:
  assumes ok: "createIframeVirtualEnvironment c g options s = (Inr env, s')"
    and sh: "shouldUseDefaultGlobalOwnKeys (globalObjectShape (destructure options))"
    and empty: "defaultGlobalOwnKeys s = None"
    and fresh: "nextRefUnused s"
    and res: "getCachedGlobalObjectReferences c g = JObject r"
  shows "\<exists>iframe s1 w.
           createDetachableIframe (document (recordFields c r)) s = (Inr iframe, s1)
         \<and> contentWindow s1 iframe = Some w \<and> w = nextRef s + 1
         \<and> defaultGlobalOwnKeys s'
             = Some (filterWindowKeys c (getFilteredGlobalOwnKeys c (JObject w)))"
proof -
  let ?doc = "document (recordFields c r)"
  from ok res obtain iframe s1 where
    cdi: "createDetachableIframe ?doc s = (Inr iframe, s1)"
    and vz: "virtualize c g (recordFields c r) (destructure options) iframe s1 = (Inr env, s')"
    by (auto elim!: call_Inr)
  from cdi fresh obtain p where
    cw: "contentWindow s1 iframe = (if hasBrowsingContext s ?doc then Some (nextRef s + 1) else None)"
    and d1: "defaultGlobalOwnKeys s1 = defaultGlobalOwnKeys s"
    by (rule createDetachableIframe_Inr)
  from vz obtain w s4 where
    w: "contentWindow s1 iframe = Some w"
    and lc: "lifecycle (keepAliveOf (destructure options)) iframe w s4 = (Inr (), s')"
    and d4: "defaultGlobalOwnKeys s4 = defaultGlobalOwnKeys
        (initDefaultGlobalOwnKeys c (globalObjectShape (destructure options)) (Some w) s1)"
    by (rule virtualize_Inr)
  have weq: "w = nextRef s + 1" using cw w by (simp split: if_splits)
  have "defaultGlobalOwnKeys s' = Some (filterWindowKeys c (getFilteredGlobalOwnKeys c (JObject w)))"
    using lifecycle_fields(1) [OF lc] sh empty
    by (simp add: d4 d1 initDefault_fields(4) windowValue_def)
  then show ?thesis using cdi w weq by blast
qed



theorem default_keys_from_sandbox_window_witness:
  "shouldUseDefaultGlobalOwnKeys (globalObjectShape (destructure None))
   \<and> defaultGlobalOwnKeys hostWorld = None
   \<and> nextRefUnused hostWorld
   \<and> getCachedGlobalObjectReferences hostCollaborators (JObject 3) = JObject 4
   \<and> contentWindow (snd (createDetachableIframe 0 hostWorld)) 20 = Some 21
   \<and> defaultGlobalOwnKeys
        (snd (createIframeVirtualEnvironment hostCollaborators (JObject 3) None hostWorld))
       = Some (filterWindowKeys hostCollaborators
                 (getFilteredGlobalOwnKeys hostCollaborators (JObject 21)))"
proof -
  let ?call = "createIframeVirtualEnvironment hostCollaborators (JObject 3) None hostWorld"
  have h: "shouldUseDefaultGlobalOwnKeys (globalObjectShape (destructure None))"
    "defaultGlobalOwnKeys hostWorld = None"
    "getCachedGlobalObjectReferences hostCollaborators (JObject 3) = JObject 4"
    "document (recordFields hostCollaborators 4) = 0" "nextRef hostWorld = 20"
    by (simp_all add: model_defs)
  have fresh: "nextRefUnused hostWorld"
    by (simp add: nextRefUnused_def hostWorld_def)
  have "\<exists>env. fst ?call = Inr env"
    by (simp add: model_defs Let_def)
  then obtain env s' where c: "?call = (Inr env, s')"
    by (cases ?call) auto
  have cw: "contentWindow (snd (createDetachableIframe 0 hostWorld)) 20 = Some 21"
    by (simp add: model_defs Let_def)
  have "defaultGlobalOwnKeys s'
          = Some (filterWindowKeys hostCollaborators
                    (getFilteredGlobalOwnKeys hostCollaborators (JObject 21)))"
    using default_keys_from_sandbox_window [OF c h(1) h(2) fresh h(3)] h(5) by auto
  then show ?thesis using h fresh cw c by simp
qed

text \<open>
  C8 as stated fails: the host window (3) has the own keys \<^verbatim>\<open>window\<close>, \<^verbatim>\<open>top\<close> and \<^verbatim>\<open>hostOnly\<close>,
  the fresh iframe window has \<^verbatim>\<open>window\<close>, \<^verbatim>\<open>top\<close> and \<^verbatim>\<open>fetch\<close>; the list cached by the call
  is the filtered list of the iframe window, not that of the host window.
\<close>

theorem default_keys_not_from_host_global_counterexample:
  "defaultGlobalOwnKeys hostWorld = None
   \<and> filterWindowKeys hostCollaborators (getFilteredGlobalOwnKeys hostCollaborators (JObject 3))
       = [KeyString ''window'', KeyString ''hostOnly'']
   \<and> defaultGlobalOwnKeys
        (snd (createIframeVirtualEnvironment hostCollaborators (JObject 3) None hostWorld))
       = Some [KeyString ''window'', KeyString ''fetch'']
   \<and> defaultGlobalOwnKeys
        (snd (createIframeVirtualEnvironment hostCollaborators (JObject 3) None hostWorld))
       \<noteq> Some (filterWindowKeys hostCollaborators
                 (getFilteredGlobalOwnKeys hostCollaborators (JObject 3)))"
  by (simp add: model_defs Let_def)

subsection \<open>The connector cache\<close>

text \<open>
  C3. Take a first successful call, any sequence of calls after it, and a second
  successful call, from a state whose cache is well formed (the empty cache is). The
  connector a call uses is, when the call returns, the entry of
  \<^verbatim>\<open>blueDocumentToBlueCreateHooksCallbackMap\<close> for the document the call resolved. When the
  map had an entry for that document, the call uses that entry and leaves the map as it
  found it; when it had none, the call stores one new entry, for that document, with a
  connector built during the call (a reference allocated after the call began, so none of
  the connectors cached before). The entry of the first call is still there when the
  second call begins. So when both calls resolve to the same host document, the second
  uses the connector of the first and leaves the map unchanged; when they resolve to
  different documents, their connectors differ. The map keeps one entry per document.
\<close>

theorem connector_per_document:
  assumes inv: "cacheInvariant s"
    and c1: "createIframeVirtualEnvironment c g1 options1 s = (Inr env1, s1)"
    and r1: "getCachedGlobalObjectReferences c g1 = JObject r1"
    and c2: "createIframeVirtualEnvironment c g2 options2 (snd (run c ins s1)) = (Inr env2, s2)"
    and r2: "getCachedGlobalObjectReferences c g2 = JObject r2"
  shows "map_of (blueDocumentToBlueCreateHooksCallbackMap s1) (document (recordFields c r1))
           = Some (blueConnector env1)
       \<and> (\<forall>k. map_of (blueDocumentToBlueCreateHooksCallbackMap s) (document (recordFields c r1))
                 = Some k \<longrightarrow>
              blueConnector env1 = k
            \<and> blueDocumentToBlueCreateHooksCallbackMap s1 = blueDocumentToBlueCreateHooksCallbackMap s)
       \<and> (map_of (blueDocumentToBlueCreateHooksCallbackMap s) (document (recordFields c r1)) = None
            \<longrightarrow>
              blueDocumentToBlueCreateHooksCallbackMap s1
                = blueDocumentToBlueCreateHooksCallbackMap s
                    @ [(document (recordFields c r1), blueConnector env1)]
            \<and> nextRef s \<le> blueConnector env1 \<and> blueConnector env1 < nextRef s1)
       \<and> map_of (blueDocumentToBlueCreateHooksCallbackMap (snd (run c ins s1)))
             (document (recordFields c r1)) = Some (blueConnector env1)
       \<and> map_of (blueDocumentToBlueCreateHooksCallbackMap s2) (document (recordFields c r2))
           = Some (blueConnector env2)
       \<and> (\<forall>k. map_of (blueDocumentToBlueCreateHooksCallbackMap (snd (run c ins s1)))
                 (document (recordFields c r2)) = Some k \<longrightarrow>
              blueConnector env2 = k
            \<and> blueDocumentToBlueCreateHooksCallbackMap s2
                = blueDocumentToBlueCreateHooksCallbackMap (snd (run c ins s1)))
       \<and> (map_of (blueDocumentToBlueCreateHooksCallbackMap (snd (run c ins s1)))
                 (document (recordFields c r2)) = None \<longrightarrow>
              blueDocumentToBlueCreateHooksCallbackMap s2
                = blueDocumentToBlueCreateHooksCallbackMap (snd (run c ins s1))
                    @ [(document (recordFields c r2), blueConnector env2)]
            \<and> nextRef (snd (run c ins s1)) \<le> blueConnector env2
            \<and> blueConnector env2 < nextRef s2)
       \<and> (document (recordFields c r1) = document (recordFields c r2) \<longrightarrow>
            blueConnector env2 = blueConnector env1
          \<and> blueDocumentToBlueCreateHooksCallbackMap s2
              = blueDocumentToBlueCreateHooksCallbackMap (snd (run c ins s1)))
       \<and> (document (recordFields c r1) \<noteq> document (recordFields c r2) \<longrightarrow>
            blueConnector env2 \<noteq> blueConnector env1)
       \<and> distinct (map fst (blueDocumentToBlueCreateHooksCallbackMap s2))
       \<and> cacheInvariant s2"
proof -
  let ?d1 = "document (recordFields c r1)" and ?d2 = "document (recordFields c r2)"
  let ?mid = "snd (run c ins s1)"
  have inv1: "cacheInvariant s1" by (rule call_cache(1) [OF inv c1])
  have e1: "map_of (blueDocumentToBlueCreateHooksCallbackMap s1) ?d1 = Some (blueConnector env1)"
    by (rule call_connector(1) [OF inv c1 r1])
  have invm: "cacheInvariant ?mid" using run_cache [OF inv1] by simp
  have em: "map_of (blueDocumentToBlueCreateHooksCallbackMap ?mid) ?d1 = Some (blueConnector env1)"
    using run_cache [OF inv1, of c ins ?d1 "blueConnector env1"] e1 by simp
  have inv2: "cacheInvariant s2" by (rule call_cache(1) [OF invm c2])
  have e2: "map_of (blueDocumentToBlueCreateHooksCallbackMap s2) ?d2 = Some (blueConnector env2)"
    by (rule call_connector(1) [OF invm c2 r2])
  have e12: "map_of (blueDocumentToBlueCreateHooksCallbackMap s2) ?d1 = Some (blueConnector env1)"
    by (rule call_cache(2) [OF invm c2 em])
  have hit1: "\<forall>k. map_of (blueDocumentToBlueCreateHooksCallbackMap s) ?d1 = Some k \<longrightarrow>
              blueConnector env1 = k
            \<and> blueDocumentToBlueCreateHooksCallbackMap s1 = blueDocumentToBlueCreateHooksCallbackMap s"
    using call_connector_built(1) [OF c1 r1] by blast
  have miss1: "map_of (blueDocumentToBlueCreateHooksCallbackMap s) ?d1 = None \<longrightarrow>
              blueDocumentToBlueCreateHooksCallbackMap s1
                = blueDocumentToBlueCreateHooksCallbackMap s @ [(?d1, blueConnector env1)]
            \<and> nextRef s \<le> blueConnector env1 \<and> blueConnector env1 < nextRef s1"
    using call_connector_built(2) [OF c1 r1] by blast
  have hit2: "\<forall>k. map_of (blueDocumentToBlueCreateHooksCallbackMap ?mid) ?d2 = Some k \<longrightarrow>
              blueConnector env2 = k
            \<and> blueDocumentToBlueCreateHooksCallbackMap s2
                = blueDocumentToBlueCreateHooksCallbackMap ?mid"
    using call_connector_built(1) [OF c2 r2] by blast
  have miss2: "map_of (blueDocumentToBlueCreateHooksCallbackMap ?mid) ?d2 = None \<longrightarrow>
              blueDocumentToBlueCreateHooksCallbackMap s2
                = blueDocumentToBlueCreateHooksCallbackMap ?mid @ [(?d2, blueConnector env2)]
            \<and> nextRef ?mid \<le> blueConnector env2 \<and> blueConnector env2 < nextRef s2"
    using call_connector_built(2) [OF c2 r2] by blast
  have same: "?d1 = ?d2 \<longrightarrow> blueConnector env2 = blueConnector env1
          \<and> blueDocumentToBlueCreateHooksCallbackMap s2 = blueDocumentToBlueCreateHooksCallbackMap ?mid"
    using hit2 em by auto
  have diff: "?d1 \<noteq> ?d2 \<longrightarrow> blueConnector env2 \<noteq> blueConnector env1"
  proof
    assume ne: "?d1 \<noteq> ?d2"
    have "(?d1, blueConnector env1) \<in> set (blueDocumentToBlueCreateHooksCallbackMap s2)"
      "(?d2, blueConnector env2) \<in> set (blueDocumentToBlueCreateHooksCallbackMap s2)"
      using e12 e2 by (auto dest: map_of_SomeD)
    moreover have "distinct (map snd (blueDocumentToBlueCreateHooksCallbackMap s2))"
      using inv2 by (simp add: cacheInvariant_def)
    ultimately show "blueConnector env2 \<noteq> blueConnector env1"
      using ne by (metis eq_key_imp_eq_value prod.collapse swap_simp distinct_map inj_onD snd_conv)
  qed
  have d: "distinct (map fst (blueDocumentToBlueCreateHooksCallbackMap s2))"
    using inv2 by (simp add: cacheInvariant_def)
  show ?thesis
    using e1 hit1 miss1 em e2 hit2 miss2 same diff d inv2 by (intro conjI)
qed

theorem connector_per_document_witness:
  "cacheInvariant hostWorld
   \<and> blueDocumentToBlueCreateHooksCallbackMap hostWorld = []
   \<and> getCachedGlobalObjectReferences hostCollaborators (JObject 3) = JObject 4
   \<and> getCachedGlobalObjectReferences hostCollaborators (JObject 13) = JObject 14
   \<and> document (recordFields hostCollaborators 4) \<noteq> document (recordFields hostCollaborators 14)
   \<and> (\<exists>env1 s1 env2 s2 env3 s3.
         createIframeVirtualEnvironment hostCollaborators (JObject 3) None hostWorld = (Inr env1, s1)
       \<and> createIframeVirtualEnvironment hostCollaborators (JObject 13) None
           (snd (run hostCollaborators [] s1)) = (Inr env2, s2)
       \<and> createIframeVirtualEnvironment hostCollaborators (JObject 3) (Some keepAliveOptions)
           (snd (run hostCollaborators [(JObject 13, None)] s1)) = (Inr env3, s3)
       \<and> blueDocumentToBlueCreateHooksCallbackMap s1 = [(0, blueConnector env1)]
       \<and> blueConnector env2 \<noteq> blueConnector env1
       \<and> blueConnector env3 = blueConnector env1
       \<and> blueDocumentToBlueCreateHooksCallbackMap s3
           = blueDocumentToBlueCreateHooksCallbackMap
               (snd (run hostCollaborators [(JObject 13, None)] s1))
       \<and> blueConnector env1 = 23)"
proof -
  let ?call1 = "createIframeVirtualEnvironment hostCollaborators (JObject 3) None hostWorld"
  let ?call2 = "createIframeVirtualEnvironment hostCollaborators (JObject 13) None
                  (snd (run hostCollaborators [] (snd ?call1)))"
  let ?call3 = "createIframeVirtualEnvironment hostCollaborators (JObject 3) (Some keepAliveOptions)
                  (snd (run hostCollaborators [(JObject 13, None)] (snd ?call1)))"
  have inv: "cacheInvariant hostWorld"
    by (simp add: cacheInvariant_def hostWorld_def)
  have r: "getCachedGlobalObjectReferences hostCollaborators (JObject 3) = JObject 4"
    "getCachedGlobalObjectReferences hostCollaborators (JObject 13) = JObject 14"
    "document (recordFields hostCollaborators 4) = 0"
    "document (recordFields hostCollaborators 14) = 10"
    "blueDocumentToBlueCreateHooksCallbackMap hostWorld = []"
    by (simp_all add: model_defs)
  have "\<exists>env. fst ?call1 = Inr env \<and> blueConnector env = 23"
    by (simp add: model_defs Let_def)
  then obtain env1 s1 where c1: "?call1 = (Inr env1, s1)" and b1: "blueConnector env1 = 23"
    by (cases ?call1) auto
  have "\<exists>env. fst ?call2 = Inr env"
    by (simp add: model_defs Let_def)
  then obtain env2 s2 where c2: "?call2 = (Inr env2, s2)"
    by (cases ?call2) auto
  have "\<exists>env. fst ?call3 = Inr env"
    by (simp add: model_defs Let_def)
  then obtain env3 s3 where c3: "?call3 = (Inr env3, s3)"
    by (cases ?call3) auto
  have c2': "createIframeVirtualEnvironment hostCollaborators (JObject 13) None
               (snd (run hostCollaborators [] s1)) = (Inr env2, s2)"
    and c3': "createIframeVirtualEnvironment hostCollaborators (JObject 3) (Some keepAliveOptions)
               (snd (run hostCollaborators [(JObject 13, None)] s1)) = (Inr env3, s3)"
    using c1 c2 c3 by simp_all
  note t2 = connector_per_document [OF inv c1 r(1) c2' r(2)]
  note t3 = connector_per_document [OF inv c1 r(1) c3' r(1)]
  have m1: "blueDocumentToBlueCreateHooksCallbackMap s1 = [(0, blueConnector env1)]"
    using t2 r by simp
  have "blueConnector env2 \<noteq> blueConnector env1"
    using t2 r by simp
  moreover have "blueConnector env3 = blueConnector env1
     \<and> blueDocumentToBlueCreateHooksCallbackMap s3
           = blueDocumentToBlueCreateHooksCallbackMap
               (snd (run hostCollaborators [(JObject 13, None)] s1))"
    using t3 by simp
  ultimately show ?thesis using inv r c1 c2' c3' b1 m1 by simp
qed

subsection \<open>Poisoned keys\<close>




subsection \<open>Endowments\<close>



end
